theory Spec2Isabelle
  imports Complex_Main "HOL-Library.Word" "HOL-Library.Sublist" "HOL-Library.Log_Nat"
begin

section \<open>Data model of \<open>Example_10_Shaderfun.cpp\<close>\<close>

text \<open>
  Identifiers are \<open>QUrl\<close>s, compared with \<open>==\<close>; the model takes them as strings, the
  default-constructed \<open>QUrl()\<close> being the empty string.  A \<open>TexturePtr\<close> is a shared pointer
  to a texture object: \<open>None\<close> is the null pointer, \<open>Some n\<close> the texture object number \<open>n\<close>.
  The UI texture travels as a raw \<open>GLuint\<close> name, a 32-bit word whose zero is "no texture".
  A \<open>GLsync\<close> is a pointer to a fence object; \<open>0\<close> is the null pointer.
  Times and scales are C++ \<open>float\<close>s; the model holds a finite one as the real number it
  stands for.  The handler of the resolution scale computes with rounding, NaN and the
  infinities, as the machine does.
\<close>

type_synonym QUrl = string
type_synonym TexturePtr = "nat option"
type_synonym GLuint = "32 word"
type_synonym GLsync = nat
type_synonym vec3 = "real \<times> real \<times> real"
type_synonym uvec2 = "nat \<times> nat"

text \<open>
  \<open>oglplus::Texture::Target\<close>, as far as this file uses it.  A \<open>Channel\<close> that is
  default-initialised (\<open>Channel newChannel;\<close>, \<open>Channel channels[4];\<close>) has an indeterminate
  target, which the model names.
\<close>

datatype Target = Tex2D | CubeMap | Indeterminate

datatype ChannelInputType = TEXTURE | CUBEMAP | VIDEO | AUDIO

text \<open>\<open>struct Channel\<close>; its field \<open>resolution\<close> is never read or written in the file.\<close>

record Channel =
  target :: Target
  texture :: TexturePtr

record TextureData =
  tex :: TexturePtr
  tex_size :: uvec2

text \<open>
  A linked program, seen through \<open>oria::getActiveUniforms\<close>: the map from the names of its
  active uniforms to their locations.
\<close>

record Program =
  activeUniforms :: "string \<rightharpoonup> nat"

text \<open>
  The closures pushed onto \<open>uniformLambdas\<close>.  The first three capture \<open>this\<close> by reference
  and nothing else; the channel closure captures the loop index \<open>i\<close> and \<open>this\<close> by value.
\<close>

datatype UniformLambda =
  SetGlobalTime
| SetResolution
| SetPosition
| BindChannel nat

datatype Signal = compileSuccess | compileError string

text \<open>What a closure does to the GL state when it is called.\<close>

datatype GLCall =
  UniformFloat string real
| UniformVec3 string vec3
| ActiveTexture nat
| BindTexture nat Target

text \<open>
  Everything the shader code uses but does not define: the compile-time switch \<open>USE_RIFT\<close>,
  the constants of \<open>Shadertoy.h\<close> (\<open>UNIFORM_CHANNELS\<close> is an array of four names), the vertex
  shader resource, Qt's \<open>QString::replace(QRegExp(pattern), after)\<close>, and the GL compiler
  and linker: \<open>Some log\<close> and \<open>Inl log\<close> are a \<open>ProgramBuildError\<close> carrying that build log.
\<close>

record Env =
  USE_RIFT :: bool
  SHADER_HEADER :: string
  LINE_NUMBER_HEADER :: string
  SHADERTOY_SHADERS_DEFAULT_VS :: string
  UNIFORM_GLOBALTIME :: string
  UNIFORM_RESOLUTION :: string
  UNIFORM_POSITION :: string
  UNIFORM_CHANNELS :: "nat \<Rightarrow> string"
  replaceRegExp :: "string \<Rightarrow> string \<Rightarrow> string \<Rightarrow> string"
  compileVertex :: "string \<Rightarrow> string option"
  compileFragment :: "string \<Rightarrow> string option"
  linkProgram :: "string \<Rightarrow> string \<Rightarrow> string + Program"

text \<open>
  The members of \<open>class ShadertoyRenderer\<close>.  A shader object is represented by the source
  it was given.  Three fields are not in the class: \<open>signals\<close> lists the Qt signals emitted
  so far, \<open>uploads\<close> counts the calls of \<open>oria::load2dTexture\<close> made by \<open>loadTexture\<close>, and
  \<open>nextTexture\<close> is the number the next texture object gets.
\<close>

record ShadertoyRenderer =
  canonicalUrlMap :: "QUrl \<rightharpoonup> QUrl"
  textureCache :: "QUrl \<rightharpoonup> TextureData"
  channels :: "Channel list"
  channelSources :: "QUrl list"
  vrMode :: bool
  texRes :: real
  eyePosScale :: real
  startTime :: real
  uniformLambdas :: "UniformLambda list"
  position :: vec3
  skybox :: "Program option"
  vertexShader :: "string option"
  fragmentShader :: "string option"
  shadertoyProgram :: "Program option"
  signals :: "Signal list"
  uploads :: nat
  nextTexture :: nat

section \<open>Texture lookup\<close>

text \<open>
  The loop of \<open>loadTexture\<close> (and of \<open>loadShader\<close>):
  \<^verbatim>\<open>while (canonicalUrlMap.count(url)) { url = canonicalUrlMap[url]; }\<close>
  It has no counter and no visited set, so it need not return; \<open>None\<close> is "does not return".
\<close>

partial_function (option) canonicalUrl :: "(QUrl \<rightharpoonup> QUrl) \<Rightarrow> QUrl \<Rightarrow> QUrl option" where
  "canonicalUrl m url = (case m url of None \<Rightarrow> Some url | Some url' \<Rightarrow> canonicalUrl m url')"

text \<open>\<open>n\<close> hops of the alias table, started at \<open>url\<close>; \<open>None\<close> if the chain ends earlier.\<close>

fun hops :: "(QUrl \<rightharpoonup> QUrl) \<Rightarrow> nat \<Rightarrow> QUrl \<Rightarrow> QUrl option" where
  "hops m 0 url = Some url"
| "hops m (Suc n) url = (case m url of None \<Rightarrow> None | Some url' \<Rightarrow> hops m n url')"

text \<open>
  \<open>initTextureCache\<close>.  \<open>TEXTURES\<close> and \<open>CUBEMAPS\<close> are arrays of resources; an entry is
  given here by its mnemonic (\<open>Resources::getResourceMnemonic\<close>), and \<open>None\<close> is
  \<open>NO_RESOURCE\<close>.  \<open>decimal\<close> is \<open>%d\<close> and \<open>decimal02\<close> is \<open>%02d\<close> for an index that is not
  negative; \<open>fileName\<close> is \<open>path.split("/").back()\<close>.  The first loop lets
  \<open>oria::load2dTexture\<close> store the size of the image, \<open>imageSize path\<close>, in the cache entry;
  the second loop leaves the size of the entry alone.
\<close>

definition digit :: "nat \<Rightarrow> char" where
  "digit n = ''0123456789'' ! n"

fun decimal :: "nat \<Rightarrow> string" where
  "decimal n = (if n < 10 then [digit n] else decimal (n div 10) @ [digit (n mod 10)])"

definition decimal02 :: "nat \<Rightarrow> string" where
  "decimal02 n = (if n < 10 then CHR ''0'' # decimal n else decimal n)"

fun fileName :: "string \<Rightarrow> string \<Rightarrow> string" where
  "fileName acc [] = acc"
| "fileName acc (c # cs) = (if c = CHR ''/'' then fileName [] cs else fileName (acc @ [c]) cs)"

definition addAliases :: "string \<Rightarrow> nat \<Rightarrow> string \<Rightarrow> (QUrl \<rightharpoonup> QUrl) \<Rightarrow> (QUrl \<rightharpoonup> QUrl)" where
  "addAliases kind i path m =
     (let url = ''qrc:/'' @ path in
      m(''preset://'' @ kind @ ''/'' @ decimal i \<mapsto> url,
        ''preset://'' @ kind @ ''/'' @ decimal02 i \<mapsto> url,
        ''/presets/'' @ fileName [] path \<mapsto> url))"

fun initLoop ::
  "string \<Rightarrow> (string \<Rightarrow> uvec2) option \<Rightarrow> nat \<Rightarrow> string option list
     \<Rightarrow> 'a ShadertoyRenderer_scheme \<Rightarrow> 'a ShadertoyRenderer_scheme"
where
  "initLoop kind sz i [] s = s"
| "initLoop kind sz i (None # rest) s = initLoop kind sz (Suc i) rest s"
| "initLoop kind sz i (Some path # rest) s =
     initLoop kind sz (Suc i) rest
       (s\<lparr>textureCache :=
            (textureCache s)(''qrc:/'' @ path \<mapsto>
               \<lparr>tex = Some (nextTexture s),
                tex_size = (case sz of
                              Some imageSize \<Rightarrow> imageSize path
                            | None \<Rightarrow> (case textureCache s (''qrc:/'' @ path) of
                                         None \<Rightarrow> (0, 0) | Some e \<Rightarrow> tex_size e))\<rparr>),
          nextTexture := Suc (nextTexture s),
          canonicalUrlMap := addAliases kind i path (canonicalUrlMap s)\<rparr>)"

definition initTextureCache ::
  "(string \<Rightarrow> uvec2) \<Rightarrow> string option list \<Rightarrow> string option list
     \<Rightarrow> 'a ShadertoyRenderer_scheme \<Rightarrow> 'a ShadertoyRenderer_scheme"
where
  "initTextureCache imageSize TEXTURES CUBEMAPS s =
     initLoop ''cube'' None 0 CUBEMAPS (initLoop ''tex'' (Some imageSize) 0 TEXTURES s)"

text \<open>
  How a call can fail to produce a state: the alias loop does not return, an array is
  indexed outside \<open>0..3\<close>, or the null program pointer is dereferenced.
\<close>

datatype fault = NoReturn | OutOfBounds | NullPointer

text \<open>
  \<open>loadTexture\<close>: the canonical identifier is looked up in the cache; a missing entry is
  read from the file named by the \<^emph>\<open>original\<close> identifier, uploaded by
  \<open>oria::load2dTexture\<close>, and cached under the canonical one (its \<open>size\<close> stays as
  default-constructed).  Pixel data is not part of the model.
\<close>

definition loadTexture ::
  "'a ShadertoyRenderer_scheme \<Rightarrow> QUrl \<Rightarrow> fault + ('a ShadertoyRenderer_scheme \<times> TexturePtr)"
where
  "loadTexture s source =
     (case canonicalUrl (canonicalUrlMap s) source of
        None \<Rightarrow> Inl NoReturn
      | Some url \<Rightarrow>
          (case textureCache s url of
             Some entry \<Rightarrow> Inr (s, tex entry)
           | None \<Rightarrow>
               Inr (s\<lparr>textureCache :=
                        (textureCache s)(url \<mapsto> \<lparr>tex = Some (nextTexture s), tex_size = (0, 0)\<rparr>),
                      uploads := Suc (uploads s),
                      nextTexture := Suc (nextTexture s)\<rparr>,
                    Some (nextTexture s))))"

text \<open>The assignment \<open>channels[channel] = newChannel\<close>.\<close>

definition assignChannel ::
  "'a ShadertoyRenderer_scheme \<Rightarrow> int \<Rightarrow> Channel \<Rightarrow> 'a ShadertoyRenderer_scheme"
where
  "assignChannel s channel newChannel = s\<lparr>channels := (channels s)[nat channel := newChannel]\<rparr>"

definition setChannelTextureInternal ::
  "'a ShadertoyRenderer_scheme \<Rightarrow> int \<Rightarrow> ChannelInputType \<Rightarrow> QUrl
     \<Rightarrow> fault + 'a ShadertoyRenderer_scheme"
where
  "setChannelTextureInternal s channel type textureSource =
     (if channel < 0 \<or> 4 \<le> channel then Inl OutOfBounds
      else if textureSource = channelSources s ! nat channel then Inr s
      else
        let s1 = s\<lparr>channelSources := (channelSources s)[nat channel := textureSource]\<rparr> in
        if textureSource = [] then
          Inr (assignChannel s1 channel \<lparr>target = Tex2D, texture = None\<rparr>)
        else
          (case type of
             TEXTURE \<Rightarrow>
               (case loadTexture s1 textureSource of
                  Inl f \<Rightarrow> Inl f
                | Inr (s2, t) \<Rightarrow> Inr (assignChannel s2 channel \<lparr>target = Tex2D, texture = t\<rparr>))
           | CUBEMAP \<Rightarrow>
               (case loadTexture s1 textureSource of
                  Inl f \<Rightarrow> Inl f
                | Inr (s2, t) \<Rightarrow> Inr (assignChannel s2 channel \<lparr>target = CubeMap, texture = t\<rparr>))
           | VIDEO \<Rightarrow> Inr (assignChannel s1 channel \<lparr>target = Indeterminate, texture = None\<rparr>)
           | AUDIO \<Rightarrow> Inr (assignChannel s1 channel \<lparr>target = Indeterminate, texture = None\<rparr>)))"

section \<open>Uniforms\<close>

text \<open>
  The closures \<open>updateUniforms\<close> pushes, in its order: time, resolution, position (compiled
  only under \<open>USE_RIFT\<close>), then the channels \<open>0..3\<close> whose sampler is active and whose slot
  holds a texture at this moment.
\<close>

definition channelLambda :: "Env \<Rightarrow> Program \<Rightarrow> Channel list \<Rightarrow> nat \<Rightarrow> UniformLambda list" where
  "channelLambda env p chans i =
     (if UNIFORM_CHANNELS env i \<in> dom (activeUniforms p) \<and> texture (chans ! i) \<noteq> None
      then [BindChannel i] else [])"

definition lambdasFor :: "Env \<Rightarrow> Program \<Rightarrow> Channel list \<Rightarrow> UniformLambda list" where
  "lambdasFor env p chans =
     (if UNIFORM_GLOBALTIME env \<in> dom (activeUniforms p) then [SetGlobalTime] else []) @
     (if UNIFORM_RESOLUTION env \<in> dom (activeUniforms p) then [SetResolution] else []) @
     (if USE_RIFT env \<and> UNIFORM_POSITION env \<in> dom (activeUniforms p) then [SetPosition] else []) @
     concat (map (channelLambda env p chans) [0, 1, 2, 3])"

text \<open>
  \<open>updateUniforms\<close> dereferences \<open>shadertoyProgram\<close> first.  Its \<open>glUniform1i\<close> calls assign
  texture unit \<open>i\<close> to sampler \<open>i\<close> inside the program object and touch no member.
\<close>

definition updateUniforms ::
  "Env \<Rightarrow> 'a ShadertoyRenderer_scheme \<Rightarrow> fault + 'a ShadertoyRenderer_scheme"
where
  "updateUniforms env s =
     (case shadertoyProgram s of
        None \<Rightarrow> Inl NullPointer
      | Some p \<Rightarrow> Inr (s\<lparr>uniformLambdas := lambdasFor env p (channels s)\<rparr>))"

text \<open>
  What the renderer hands to a closure each frame: \<open>Platform::elapsedSeconds()\<close>, the eye
  pose position and \<open>textureSize()\<close>.
\<close>

record FrameInput =
  elapsedSeconds :: real
  eyePosePosition :: vec3
  textureSize :: "real \<times> real"

definition renderSize :: "'a ShadertoyRenderer_scheme \<Rightarrow> real \<times> real \<Rightarrow> uvec2" where
  "renderSize s ts = (nat \<lfloor>texRes s * fst ts\<rfloor>, nat \<lfloor>texRes s * snd ts\<rfloor>)"

text \<open>
  Calling a closure.  Every closure reads the members through \<open>this\<close> when it runs; the
  channel closure has only its index \<open>i\<close> fixed.
\<close>

fun invoke :: "Env \<Rightarrow> FrameInput \<Rightarrow> 'a ShadertoyRenderer_scheme \<Rightarrow> UniformLambda \<Rightarrow> GLCall list" where
  "invoke env fr s SetGlobalTime =
     [UniformFloat (UNIFORM_GLOBALTIME env) (elapsedSeconds fr - startTime s)]"
| "invoke env fr s SetResolution =
     (case renderSize s (textureSize fr) of
        (w, h) \<Rightarrow> [UniformVec3 (UNIFORM_RESOLUTION env) (real w, real h, 0)])"
| "invoke env fr s SetPosition =
     (case (eyePosePosition fr, position s) of
        ((ex, ey, ez), (px, py, pz)) \<Rightarrow>
          [UniformVec3 (UNIFORM_POSITION env)
             ((ex + px) * eyePosScale s, (ey + py) * eyePosScale s, (ez + pz) * eyePosScale s)])"
| "invoke env fr s (BindChannel i) =
     (case texture (channels s ! i) of
        None \<Rightarrow> []
      | Some t \<Rightarrow> [ActiveTexture i, BindTexture t (target (channels s ! i))])"

definition isBindChannel :: "UniformLambda \<Rightarrow> bool" where
  "isBindChannel l = (case l of BindChannel i \<Rightarrow> True | _ \<Rightarrow> False)"

section \<open>Building the shader\<close>

text \<open>\<open>QString::contains\<close>: the pattern occurs somewhere in the text.\<close>

fun contains :: "string \<Rightarrow> string \<Rightarrow> bool" where
  "contains [] pat = (pat = [])"
| "contains (c # cs) pat = (prefix pat (c # cs) \<or> contains cs pat)"

definition samplerLine :: "Channel list \<Rightarrow> nat \<Rightarrow> string" where
  "samplerLine chans i =
     ''uniform sampler'' @ (if target (chans ! i) = CubeMap then ''Cube'' else ''2D'') @
     '' iChannel'' @ [digit i] @ '';'' @ [CHR 0x0A]"

definition fragmentHeader :: "Env \<Rightarrow> Channel list \<Rightarrow> string" where
  "fragmentHeader env chans =
     SHADER_HEADER env @ concat (map (samplerLine chans) [0, 1, 2, 3]) @ LINE_NUMBER_HEADER env"

definition wordPattern :: "string \<Rightarrow> string" where
  "wordPattern w = [CHR 0x5C, CHR ''b''] @ w @ [CHR 0x5C, CHR ''b'']"

definition legacyRewrite :: "Env \<Rightarrow> string \<Rightarrow> string" where
  "legacyRewrite env source =
     replaceRegExp env (wordPattern ''textureCube'') ''texture''
       (replaceRegExp env (wordPattern ''texture2D'') ''texture''
         (replaceRegExp env (wordPattern ''gl_FragColor'') ''FragColor'' source))"

text \<open>The \<open>catch\<close> block: the log is emitted as \<open>compileError\<close> and the call returns false.\<close>

definition buildError ::
  "'a ShadertoyRenderer_scheme \<Rightarrow> string \<Rightarrow> fault + ('a ShadertoyRenderer_scheme \<times> bool)"
where
  "buildError s errLog = Inr (s\<lparr>signals := signals s @ [compileError errLog]\<rparr>, False)"

text \<open>
  \<open>setShaderSourceInternal\<close>, statement by statement; \<open>now\<close> is what
  \<open>Platform::elapsedSeconds()\<close> returns at the assignment of \<open>startTime\<close>.
\<close>

definition setShaderSourceInternal ::
  "Env \<Rightarrow> real \<Rightarrow> 'a ShadertoyRenderer_scheme \<Rightarrow> string
     \<Rightarrow> fault + ('a ShadertoyRenderer_scheme \<times> bool)"
where
  "setShaderSourceInternal env now s source =
     (let s0 = s\<lparr>position := (0, 0, 0)\<rparr>;
          s1 = (if vertexShader s0 = None
                then s0\<lparr>vertexShader := Some (SHADERTOY_SHADERS_DEFAULT_VS env)\<rparr> else s0);
          vertexResult = (if vertexShader s0 = None
                          then compileVertex env (SHADERTOY_SHADERS_DEFAULT_VS env) else None)
      in (case vertexResult of
            Some errLog \<Rightarrow> buildError s1 errLog
          | None \<Rightarrow>
              (let header = fragmentHeader env (channels s1);
                   s2 = s1\<lparr>vrMode := contains source ''#pragma vr''\<rparr>;
                   fragmentSource = header @ legacyRewrite env source
               in (case compileFragment env fragmentSource of
                     Some errLog \<Rightarrow> buildError s2 errLog
                   | None \<Rightarrow>
                       (case linkProgram env (the (vertexShader s2)) fragmentSource of
                          Inl errLog \<Rightarrow> buildError s2 errLog
                        | Inr result \<Rightarrow>
                            (let s3 = s2\<lparr>shadertoyProgram := Some result\<rparr>;
                                 s4 = (if skybox s3 = None then s3\<lparr>skybox := Some result\<rparr> else s3);
                                 s5 = s4\<lparr>fragmentShader := Some fragmentSource\<rparr>
                             in (case updateUniforms env s5 of
                                   Inl f \<Rightarrow> Inl f
                                 | Inr s6 \<Rightarrow>
                                     Inr (s6\<lparr>startTime := now,
                                             signals := signals s6 @ [compileSuccess]\<rparr>, True))))))))"

section \<open>Floating-point values\<close>

text \<open>
  \<open>texRes\<close> is a \<open>float\<close> and the factor that \<open>onModifyTextureResolution\<close> receives is a
  \<open>double\<close>.  A value of either format is a finite number, an infinity or a NaN.  The sign
  of zero is left out: no comparison tells the two zeros apart, and the value that the
  handler stores is \<open>0.1f\<close> at least.
\<close>

datatype ieee = Finite real | PlusInfinity | MinusInfinity | NaN

text \<open>
  The binary exponent of a positive number: \<open>2 powi ilog2 x \<le> x < 2 powi (ilog2 x + 1)\<close>.
\<close>

definition ilog2 :: "real \<Rightarrow> int" where
  "ilog2 x = (if 1 \<le> x then int (floorlog 2 (nat \<lfloor>x\<rfloor>)) - 1
              else - int (floorlog 2 (nat (\<lceil>1 / x\<rceil> - 1))))"

text \<open>The nearest integer, the even one of two that are equally near.\<close>

definition roundEven :: "real \<Rightarrow> int" where
  "roundEven x =
     (let n = \<lfloor>x\<rfloor>; d = x - of_int n
      in if d < 1 / 2 then n else if 1 / 2 < d then n + 1 else if even n then n else n + 1)"

text \<open>
  Rounding to nearest, ties to even, into the binary format with \<open>p\<close> significant bits and
  exponents from \<open>emin\<close> to \<open>emax\<close>: the number is rounded to a multiple of the spacing of
  the format at its magnitude (the spacing of the subnormal numbers below \<open>2 powi emin\<close>),
  and a result beyond the largest finite number is an infinity.
\<close>

definition roundTo :: "nat \<Rightarrow> int \<Rightarrow> int \<Rightarrow> real \<Rightarrow> ieee" where
  "roundTo p emin emax x =
     (if x = 0 then Finite 0
      else let ulp = 2 powi (max (ilog2 \<bar>x\<bar>) emin - int p + 1);
               r = of_int (roundEven (\<bar>x\<bar> / ulp)) * ulp
           in if 2 powi (emax + 1) \<le> r
              then (if 0 < x then PlusInfinity else MinusInfinity)
              else Finite (if 0 < x then r else - r))"

definition toFloat :: "real \<Rightarrow> ieee" where
  "toFloat = roundTo 24 (- 126) 127"

definition toDouble :: "real \<Rightarrow> ieee" where
  "toDouble = roundTo 53 (- 1022) 1023"

text \<open>
  The product of two \<open>double\<close>s: the rounded product of two finite numbers; a NaN if an
  operand is a NaN or an infinity meets zero; otherwise the infinity of the product's sign.
\<close>

fun signOf :: "ieee \<Rightarrow> real" where
  "signOf (Finite x) = sgn x"
| "signOf PlusInfinity = 1"
| "signOf MinusInfinity = - 1"
| "signOf NaN = 0"

fun doubleMul :: "ieee \<Rightarrow> ieee \<Rightarrow> ieee" where
  "doubleMul (Finite x) (Finite y) = toDouble (x * y)"
| "doubleMul a b =
     (if signOf a * signOf b = 0 then NaN
      else if 0 < signOf a * signOf b then PlusInfinity else MinusInfinity)"

text \<open>
  The conversion of a \<open>double\<close> to \<open>float\<close>, as in \<open>float newRes = scale * texRes\<close>:
  a finite number is rounded, and one beyond the range of \<open>float\<close> becomes an infinity, as
  IEEE 754 hardware does it.
\<close>

fun doubleToFloat :: "ieee \<Rightarrow> ieee" where
  "doubleToFloat (Finite x) = toFloat x"
| "doubleToFloat v = v"

text \<open>The comparisons \<open><\<close> and \<open>!=\<close>: a NaN is less than nothing and differs from everything.\<close>

fun ieee_less :: "ieee \<Rightarrow> ieee \<Rightarrow> bool" where
  "ieee_less (Finite x) (Finite y) = (x < y)"
| "ieee_less (Finite x) PlusInfinity = True"
| "ieee_less MinusInfinity (Finite y) = True"
| "ieee_less MinusInfinity PlusInfinity = True"
| "ieee_less a b = False"

definition ieee_ne :: "ieee \<Rightarrow> ieee \<Rightarrow> bool" where
  "ieee_ne a b = (a = NaN \<or> b = NaN \<or> a \<noteq> b)"

text \<open>\<open>std::max\<close> and \<open>std::min\<close>, as the standard defines them by \<open><\<close>.\<close>

definition std_max :: "ieee \<Rightarrow> ieee \<Rightarrow> ieee" where
  "std_max a b = (if ieee_less a b then b else a)"

definition std_min :: "ieee \<Rightarrow> ieee \<Rightarrow> ieee" where
  "std_min a b = (if ieee_less b a then b else a)"

text \<open>The \<open>float\<close> that the literal \<open>0.1f\<close> stands for; \<open>1.0f\<close> is 1.\<close>

definition tenthf :: real where
  "tenthf = 13421773 / 134217728"

section \<open>The window: UI texture hand-off, trash and resolution scale\<close>

datatype GLenum = GL_ALREADY_SIGNALED | GL_TIMEOUT_EXPIRED | GL_CONDITION_SATISFIED | GL_WAIT_FAILED

text \<open>
  Modelled from the spec: \<open>queueRenderThreadTask\<close> of the base class \<open>QRiftWindow\<close>, which
  is not in the file.  A task is queued by the event side and applied later by the render
  thread, in order, at the start of a frame.  The task below is the closure
  \<open>[&, newRes] { texRes = newRes; }\<close>.
\<close>

datatype Task = TexResTask ieee

text \<open>
  The members of \<open>class ShadertoyWindow\<close> that the hand-off uses, on top of the renderer's.
  \<open>lastUiTexture\<close> and \<open>lastUiSync\<close> are the function-local statics of \<open>perFrameRender\<close>
  (zero-initialised); \<open>nextSync\<close> is the fence object that the next \<open>glFenceSync\<close> returns;
  \<open>renderThreadTasks\<close> is the queue behind \<open>queueRenderThreadTask\<close>.
\<close>

record ShadertoyWindow = ShadertoyRenderer +
  uiVisible :: bool
  uiTexture :: GLuint
  textureTrash :: "(GLuint \<times> GLsync) list"
  textureDeleteQueue :: "GLuint list"
  lastUiTexture :: GLuint
  lastUiSync :: GLsync
  nextSync :: GLsync
  renderThreadTasks :: "Task list"

text \<open>\<open>exchangeUiTexture\<close>: \<open>uiTexture.exchange(newUiTexture)\<close>, one atomic step.\<close>

definition exchangeUiTexture ::
  "'a ShadertoyWindow_scheme \<Rightarrow> GLuint \<Rightarrow> 'a ShadertoyWindow_scheme \<times> GLuint"
where
  "exchangeUiTexture s newUiTexture = (s\<lparr>uiTexture := newUiTexture\<rparr>, uiTexture s)"

text \<open>
  The first half of \<open>perFrameRender\<close>, run when the UI is visible.  The result carries the
  value the exchange returned and \<open>currentUiTexture\<close> after the \<open>if\<close>, which is the texture
  drawn when it is not zero.
\<close>

definition consumeUiTexture ::
  "'a ShadertoyWindow_scheme \<Rightarrow> 'a ShadertoyWindow_scheme \<times> GLuint \<times> GLuint"
where
  "consumeUiTexture s =
     (let (s1, exchanged) = exchangeUiTexture s 0;
          currentUiTexture = (if exchanged = 0 then lastUiTexture s1 else exchanged);
          s2 = (if exchanged = 0 then s1
                else (if lastUiTexture s1 \<noteq> 0
                      then s1\<lparr>textureTrash := textureTrash s1 @ [(lastUiTexture s1, lastUiSync s1)]\<rparr>
                      else s1)\<lparr>lastUiTexture := exchanged\<rparr>);
          s3 = (if currentUiTexture \<noteq> 0
                then s2\<lparr>lastUiSync := nextSync s2, nextSync := Suc (nextSync s2)\<rparr>
                else s2)
      in (s3, exchanged, currentUiTexture))"


text \<open>
  The \<open>while\<close> loop over \<open>textureTrash\<close>; \<open>wait sync\<close> is the result of
  \<open>glClientWaitSync(sync, 0, 0)\<close> in this frame.  It returns what is left of the queue
  and \<open>tempTextureDeleteQueue\<close>.
\<close>

fun collectTrash ::
  "(GLsync \<Rightarrow> GLenum) \<Rightarrow> (GLuint \<times> GLsync) list \<Rightarrow> GLuint list
     \<Rightarrow> (GLuint \<times> GLsync) list \<times> GLuint list"
where
  "collectTrash wait [] tempTextureDeleteQueue = ([], tempTextureDeleteQueue)"
| "collectTrash wait ((tx, sync) # rest) tempTextureDeleteQueue =
     (let result = wait sync in
      if GL_ALREADY_SIGNALED = result \<or> GL_CONDITION_SATISFIED = result
      then collectTrash wait rest (tempTextureDeleteQueue @ [tx])
      else ((tx, sync) # rest, tempTextureDeleteQueue))"

text \<open>What one frame shows to an observer.\<close>

record FrameResult =
  consumed :: "GLuint option"
  drawn :: "GLuint option"
  deletable :: "GLuint list"

definition perFrameRender ::
  "(GLsync \<Rightarrow> GLenum) \<Rightarrow> 'a ShadertoyWindow_scheme \<Rightarrow> 'a ShadertoyWindow_scheme \<times> FrameResult"
where
  "perFrameRender wait s =
     (let (s1, c, d) =
            (if uiVisible s
             then (case consumeUiTexture s of
                     (s', exchanged, currentUiTexture) \<Rightarrow>
                       (s', Some exchanged,
                        if currentUiTexture \<noteq> 0 then Some currentUiTexture else None))
             else (s, None, None));
          (trash, tempTextureDeleteQueue) = collectTrash wait (textureTrash s1) [];
          s2 = s1\<lparr>textureTrash := trash\<rparr>;
          s3 = (if tempTextureDeleteQueue \<noteq> []
                then s2\<lparr>textureDeleteQueue := textureDeleteQueue s2 @ tempTextureDeleteQueue\<rparr>
                else s2)
      in (s3, \<lparr>consumed = c, drawn = d, deletable = tempTextureDeleteQueue\<rparr>))"

text \<open>
  The two actors of the hand-off: the UI side publishes a texture, the render thread runs
  a frame.  \<open>run\<close> applies a sequence of such steps and lists what each one returned.
\<close>

datatype Step = Publish GLuint | Render "GLsync \<Rightarrow> GLenum"

datatype Observed = Returned GLuint | Frame FrameResult

fun step :: "'a ShadertoyWindow_scheme \<Rightarrow> Step \<Rightarrow> 'a ShadertoyWindow_scheme \<times> Observed" where
  "step s (Publish h) = (case exchangeUiTexture s h of (s', old) \<Rightarrow> (s', Returned old))"
| "step s (Render wait) = (case perFrameRender wait s of (s', r) \<Rightarrow> (s', Frame r))"

fun run :: "'a ShadertoyWindow_scheme \<Rightarrow> Step list \<Rightarrow> 'a ShadertoyWindow_scheme \<times> Observed list" where
  "run s [] = (s, [])"
| "run s (a # as) =
     (case step s a of (s', ob) \<Rightarrow> (case run s' as of (s'', obs) \<Rightarrow> (s'', ob # obs)))"

text \<open>The handle a step took out of the hand-off cell, if it was a frame that did so.\<close>

fun consumedHandle :: "Observed \<Rightarrow> GLuint option" where
  "consumedHandle (Returned old) = None"
| "consumedHandle (Frame r) = consumed r"

text \<open>
  \<open>onModifyTextureResolution\<close> (the file defines it twice, identically).  \<open>texRes\<close> is
  converted to \<open>double\<close>, which changes no value, and multiplied by \<open>scale\<close>; the product
  is converted to \<open>float\<close>, clamped and compared with \<open>texRes\<close>.  The call of \<open>setItemText\<close>
  changes the QML item only.
\<close>

definition onModifyTextureResolution ::
  "'a ShadertoyWindow_scheme \<Rightarrow> ieee \<Rightarrow> 'a ShadertoyWindow_scheme"
where
  "onModifyTextureResolution s scale =
     (let newRes = doubleToFloat (doubleMul scale (Finite (texRes s)));
          newRes = std_max (Finite tenthf) (std_min (Finite 1) newRes)
      in if ieee_ne newRes (Finite (texRes s))
         then s\<lparr>renderThreadTasks := renderThreadTasks s @ [TexResTask newRes]\<rparr>
         else s)"

text \<open>
  Modelled from the spec: the render thread applying the queued tasks (\<open>QRiftWindow\<close>, not
  in the file).  It takes the whole queue and runs the tasks in the order they were queued.
  \<open>texRes\<close> is kept as the number it stands for: it starts at \<open>1.0f\<close> and a task assigns
  it a clamped value, which is finite (\<open>clamp_finite\<close> below).
\<close>

fun runTask :: "'a ShadertoyWindow_scheme \<Rightarrow> Task \<Rightarrow> 'a ShadertoyWindow_scheme" where
  "runTask s (TexResTask (Finite newRes)) = s\<lparr>texRes := newRes\<rparr>"
| "runTask s (TexResTask newRes) = s"

definition runRenderThreadTasks :: "'a ShadertoyWindow_scheme \<Rightarrow> 'a ShadertoyWindow_scheme" where
  "runRenderThreadTasks s = foldl runTask (s\<lparr>renderThreadTasks := []\<rparr>) (renderThreadTasks s)"

datatype ResEvent = ModifyTextureResolution ieee | RunTasks

fun resStep :: "'a ShadertoyWindow_scheme \<Rightarrow> ResEvent \<Rightarrow> 'a ShadertoyWindow_scheme" where
  "resStep s (ModifyTextureResolution scale) = onModifyTextureResolution s scale"
| "resStep s RunTasks = runRenderThreadTasks s"

section \<open>Concrete states and environments\<close>

text \<open>
  The window as its constructor leaves it: the member initialisers of the two classes,
  empty containers, four default-constructed channels and four default \<open>QUrl\<close>s.
\<close>

definition newShadertoyWindow :: ShadertoyWindow where
  "newShadertoyWindow =
     \<lparr>canonicalUrlMap = Map.empty,
      textureCache = Map.empty,
      channels = [\<lparr>target = Indeterminate, texture = None\<rparr>,
                  \<lparr>target = Indeterminate, texture = None\<rparr>,
                  \<lparr>target = Indeterminate, texture = None\<rparr>,
                  \<lparr>target = Indeterminate, texture = None\<rparr>],
      channelSources = [[], [], [], []],
      vrMode = False,
      texRes = 1,
      eyePosScale = 1,
      startTime = 0,
      uniformLambdas = [],
      position = (0, 0, 0),
      skybox = None,
      vertexShader = None,
      fragmentShader = None,
      shadertoyProgram = None,
      signals = [],
      uploads = 0,
      nextTexture = 0,
      uiVisible = False,
      uiTexture = 0,
      textureTrash = [],
      textureDeleteQueue = [],
      lastUiTexture = 0,
      lastUiSync = 0,
      nextSync = 1,
      renderThreadTasks = []\<rparr>"

text \<open>
  An environment to run the model in: the uniform names of Shadertoy, a regular-expression
  substitution that finds nothing to replace, a compiler that rejects a source containing
  \<open>#error\<close> with a one-line log, and a linker whose program has the given active uniforms.
\<close>

definition demoEnv :: "(string \<rightharpoonup> nat) \<Rightarrow> Env" where
  "demoEnv au =
     \<lparr>USE_RIFT = True,
      SHADER_HEADER = ''#version 330'' @ [CHR 0x0A],
      LINE_NUMBER_HEADER = ''#line 1'' @ [CHR 0x0A],
      SHADERTOY_SHADERS_DEFAULT_VS = ''void main() { }'',
      UNIFORM_GLOBALTIME = ''iGlobalTime'',
      UNIFORM_RESOLUTION = ''iResolution'',
      UNIFORM_POSITION = ''iPosition'',
      UNIFORM_CHANNELS = (\<lambda>i. ''iChannel'' @ [digit i]),
      replaceRegExp = (\<lambda>pat after subject. subject),
      compileVertex = (\<lambda>src. None),
      compileFragment = (\<lambda>src. if contains src ''#error'' then Some ''0(1) : error C0000'' else None),
      linkProgram = (\<lambda>vs fs. Inr \<lparr>activeUniforms = au\<rparr>)\<rparr>"

text \<open>A window after \<open>initTextureCache\<close> with one bundled texture and no cube map.\<close>

definition tex00Url :: QUrl where
  "tex00Url = ''qrc:/textures/tex00.png''"

definition tex00Window :: ShadertoyWindow where
  "tex00Window =
     initTextureCache (\<lambda>path. (512, 512)) [Some ''textures/tex00.png''] [] newShadertoyWindow"

text \<open>That window after \<open>setChannelTextureInternal(0, TEXTURE, tex00Url)\<close>.\<close>

definition tex00Loaded :: ShadertoyWindow where
  "tex00Loaded =
     assignChannel (tex00Window\<lparr>channelSources := [tex00Url, [], [], []]\<rparr>) 0
       \<lparr>target = Tex2D, texture = Some 0\<rparr>"

text \<open>Sequencing of two calls that may fail.\<close>

definition andThen :: "fault + 'a \<Rightarrow> ('a \<Rightarrow> fault + 'b) \<Rightarrow> fault + 'b" where
  "andThen r f = (case r of Inl e \<Rightarrow> Inl e | Inr x \<Rightarrow> f x)"



text \<open>
  The shape of the table that \<open>initTextureCache\<close> fills: no key starts with \<open>qrc:/\<close>, every
  value does.
\<close>

definition aliasShaped :: "(QUrl \<rightharpoonup> QUrl) \<Rightarrow> bool" where
  "aliasShaped m = (\<forall>k v. m k = Some v \<longrightarrow> \<not> prefix ''qrc:/'' k \<and> prefix ''qrc:/'' v)"

text \<open>A window whose alias table has a cycle of two entries.\<close>

definition cyclicWindow :: ShadertoyWindow where
  "cyclicWindow = newShadertoyWindow\<lparr>canonicalUrlMap := [''a'' \<mapsto> ''b'', ''b'' \<mapsto> ''a'']\<rparr>"


text \<open>
  \<open>renderShadertoy\<close> hands \<open>uniformLambdas\<close> to \<open>oria::renderGeometry\<close>, which calls the
  closures in order.
\<close>

definition runLambdas :: "Env \<Rightarrow> FrameInput \<Rightarrow> 'a ShadertoyRenderer_scheme \<Rightarrow> GLCall list" where
  "runLambdas env fr s = concat (map (invoke env fr s) (uniformLambdas s))"

definition runLambdasOf ::
  "Env \<Rightarrow> FrameInput \<Rightarrow> fault + 'a ShadertoyRenderer_scheme \<Rightarrow> GLCall list option"
where
  "runLambdasOf env fr r = (case r of Inl e \<Rightarrow> None | Inr s \<Rightarrow> Some (runLambdas env fr s))"

text \<open>The slots for which \<open>updateUniforms\<close> pushes a channel closure.\<close>

definition boundSlots :: "Env \<Rightarrow> Program \<Rightarrow> Channel list \<Rightarrow> nat list" where
  "boundSlots env p chans =
     filter (\<lambda>i. UNIFORM_CHANNELS env i \<in> dom (activeUniforms p) \<and> texture (chans ! i) \<noteq> None)
       [0, 1, 2, 3]"

text \<open>
  A program with time, resolution and all four samplers active but no position uniform,
  and a window with that program whose slots 0 and 2 hold a texture.
\<close>

definition fourSamplers :: "string \<rightharpoonup> nat" where
  "fourSamplers =
     [''iGlobalTime'' \<mapsto> 0, ''iResolution'' \<mapsto> 1, ''iChannel0'' \<mapsto> 2, ''iChannel1'' \<mapsto> 3,
      ''iChannel2'' \<mapsto> 4, ''iChannel3'' \<mapsto> 5]"

definition twoSlotsWindow :: ShadertoyWindow where
  "twoSlotsWindow =
     newShadertoyWindow
       \<lparr>channels := [\<lparr>target = Tex2D, texture = Some 7\<rparr>,
                     \<lparr>target = Tex2D, texture = None\<rparr>,
                     \<lparr>target = CubeMap, texture = Some 9\<rparr>,
                     \<lparr>target = Tex2D, texture = None\<rparr>],
        shadertoyProgram := Some \<lparr>activeUniforms = fourSamplers\<rparr>\<rparr>"

text \<open>
  The same environment in a build without \<open>USE_RIFT\<close>, and a window whose program has
  the time and the position uniform active.
\<close>

definition noRiftEnv :: "(string \<rightharpoonup> nat) \<Rightarrow> Env" where
  "noRiftEnv au = (demoEnv au)\<lparr>USE_RIFT := False\<rparr>"

definition timeAndPosition :: "string \<rightharpoonup> nat" where
  "timeAndPosition = [''iGlobalTime'' \<mapsto> 0, ''iPosition'' \<mapsto> 1]"

definition positionWindow :: ShadertoyWindow where
  "positionWindow =
     newShadertoyWindow\<lparr>shadertoyProgram := Some \<lparr>activeUniforms = timeAndPosition\<rparr>\<rparr>"

definition demoFrame :: FrameInput where
  "demoFrame = \<lparr>elapsedSeconds = 25, eyePosePosition = (0, 0, 0), textureSize = (1182, 1461)\<rparr>"

text \<open>
  A window whose slot 0 holds the bundled texture and whose program has the sampler of
  slot 0 active; the closures are rebuilt, then slot 0 is given another texture and the
  closures are \<^emph>\<open>not\<close> rebuilt.
\<close>

definition rebuiltWindow :: "fault + ShadertoyWindow" where
  "rebuiltWindow =
     updateUniforms (demoEnv [''iChannel0'' \<mapsto> 0])
       (tex00Loaded\<lparr>shadertoyProgram := Some \<lparr>activeUniforms = [''iChannel0'' \<mapsto> 0]\<rparr>\<rparr>)"

definition mutatedWindow :: "fault + ShadertoyWindow" where
  "mutatedWindow =
     andThen rebuiltWindow (\<lambda>s. setChannelTextureInternal s 0 TEXTURE ''/tmp/noise.png'')"

definition lambdasOf :: "fault + 'a ShadertoyRenderer_scheme \<Rightarrow> UniformLambda list option" where
  "lambdasOf r = (case r of Inl e \<Rightarrow> None | Inr s \<Rightarrow> Some (uniformLambdas s))"

definition rebuiltState :: ShadertoyWindow where
  "rebuiltState =
     tex00Loaded\<lparr>shadertoyProgram := Some \<lparr>activeUniforms = [''iChannel0'' \<mapsto> 0]\<rparr>,
                 uniformLambdas := [BindChannel 0]\<rparr>"

definition mutatedState :: ShadertoyWindow where
  "mutatedState =
     rebuiltState
       \<lparr>channelSources := (channelSources tex00Loaded)[0 := ''/tmp/noise.png''],
        textureCache := (textureCache tex00Loaded)
          (''/tmp/noise.png'' \<mapsto> \<lparr>tex = Some (nextTexture tex00Loaded), tex_size = (0, 0)\<rparr>),
        uploads := Suc (uploads tex00Loaded),
        nextTexture := Suc (nextTexture tex00Loaded),
        channels := (channels tex00Loaded)
          [0 := \<lparr>target = Tex2D, texture = Some (nextTexture tex00Loaded)\<rparr>]\<rparr>"

text \<open>
  The three places where \<open>setShaderSourceInternal\<close> can throw a \<open>ProgramBuildError\<close>, in
  its order: the vertex shader, compiled only by the call that finds none; the fragment
  shader, compiled from the header followed by the rewritten source; the link.
  \<open>buildLog\<close> is the log of the first of them that fails.
\<close>

definition vertexSourceOf :: "Env \<Rightarrow> 'a ShadertoyRenderer_scheme \<Rightarrow> string" where
  "vertexSourceOf env s =
     (case vertexShader s of None \<Rightarrow> SHADERTOY_SHADERS_DEFAULT_VS env | Some v \<Rightarrow> v)"

definition fragmentSourceOf :: "Env \<Rightarrow> 'a ShadertoyRenderer_scheme \<Rightarrow> string \<Rightarrow> string" where
  "fragmentSourceOf env s source = fragmentHeader env (channels s) @ legacyRewrite env source"

definition vertexReady :: "Env \<Rightarrow> 'a ShadertoyRenderer_scheme \<Rightarrow> bool" where
  "vertexReady env s =
     (vertexShader s \<noteq> None \<or> compileVertex env (SHADERTOY_SHADERS_DEFAULT_VS env) = None)"

definition buildLog :: "Env \<Rightarrow> 'a ShadertoyRenderer_scheme \<Rightarrow> string \<Rightarrow> string option" where
  "buildLog env s source =
     (if \<not> vertexReady env s then compileVertex env (SHADERTOY_SHADERS_DEFAULT_VS env)
      else (case compileFragment env (fragmentSourceOf env s source) of
              Some errLog \<Rightarrow> Some errLog
            | None \<Rightarrow>
                (case linkProgram env (vertexSourceOf env s) (fragmentSourceOf env s source) of
                   Inl errLog \<Rightarrow> Some errLog
                 | Inr result \<Rightarrow> None)))"

text \<open>Projections of the result of a build.\<close>

definition builtState ::
  "fault + ('a ShadertoyRenderer_scheme \<times> bool) \<Rightarrow> 'a ShadertoyRenderer_scheme option"
where
  "builtState r = (case r of Inl e \<Rightarrow> None | Inr (s, ok) \<Rightarrow> Some s)"

definition signalsOf :: "fault + ('a ShadertoyRenderer_scheme \<times> bool) \<Rightarrow> Signal list option" where
  "signalsOf r = map_option signals (builtState r)"

definition vrModeOf :: "fault + ('a ShadertoyRenderer_scheme \<times> bool) \<Rightarrow> bool option" where
  "vrModeOf r = map_option vrMode (builtState r)"

text \<open>
  Two more environments: a fragment compiler that fails with an empty log, and a vertex
  compiler that fails.
\<close>

definition silentEnv :: Env where
  "silentEnv = (demoEnv fourSamplers)\<lparr>compileFragment := (\<lambda>src. Some [])\<rparr>"

definition noVertexEnv :: Env where
  "noVertexEnv = (demoEnv fourSamplers)\<lparr>compileVertex := (\<lambda>src. Some ''0(1) : error C0000'')\<rparr>"

text \<open>
  A window that is rendering a program: the vertex shader exists, the closures are built,
  and the viewer has moved.
\<close>

definition runningWindow :: ShadertoyWindow where
  "runningWindow =
     twoSlotsWindow
       \<lparr>vertexShader := Some ''void main() { }'',
        fragmentShader := Some ''void main() { FragColor = vec4(1.0); }'',
        uniformLambdas := [SetGlobalTime, SetResolution, BindChannel 0, BindChannel 2],
        position := (1, 2, 3),
        startTime := 5\<rparr>"

definition brokenSource :: string where
  "brokenSource = ''#pragma vr'' @ [CHR 0x0A] @ ''#error''"

definition goodSource :: string where
  "goodSource = ''void main() { FragColor = vec4(iGlobalTime); }''"

definition programOf ::
  "fault + ('a ShadertoyRenderer_scheme \<times> bool) \<Rightarrow> Program option option"
where
  "programOf r = map_option shadertoyProgram (builtState r)"

definition startTimeOf :: "fault + ('a ShadertoyRenderer_scheme \<times> bool) \<Rightarrow> real option" where
  "startTimeOf r = map_option startTime (builtState r)"

definition positionOf :: "fault + ('a ShadertoyRenderer_scheme \<times> bool) \<Rightarrow> vec3 option" where
  "positionOf r = map_option position (builtState r)"

definition succeeded :: "fault + ('a ShadertoyRenderer_scheme \<times> bool) \<Rightarrow> bool" where
  "succeeded r = (case r of Inl e \<Rightarrow> False | Inr (s, ok) \<Rightarrow> ok)"

text \<open>The interval of the resolution scale, for \<open>texRes\<close> and for the queued tasks.\<close>

definition scaleOk :: "real \<Rightarrow> bool" where
  "scaleOk r = (1 / 10 \<le> r \<and> r \<le> 1)"

fun taskOk :: "Task \<Rightarrow> bool" where
  "taskOk (TexResTask (Finite r)) = scaleOk r"
| "taskOk (TexResTask v) = False"

definition resInvariant :: "'a ShadertoyWindow_scheme \<Rightarrow> bool" where
  "resInvariant s = (scaleOk (texRes s) \<and> list_all taskOk (renderThreadTasks s))"

text \<open>
  A window whose scale is one half, and a factor just above one, which is a \<open>double\<close>.
\<close>

definition halfResWindow :: ShadertoyWindow where
  "halfResWindow = newShadertoyWindow\<lparr>texRes := 1 / 2\<rparr>"

definition justAboveOne :: ieee where
  "justAboveOne = Finite (1 + 1 / 2 ^ 26)"


text \<open>
  Fence states of one frame: every fence complete, none, the fences up to a given one,
  and one fence alone.
\<close>

definition allSignaled :: "GLsync \<Rightarrow> GLenum" where
  "allSignaled sync = GL_ALREADY_SIGNALED"

definition noneSignaled :: "GLsync \<Rightarrow> GLenum" where
  "noneSignaled sync = GL_TIMEOUT_EXPIRED"



text \<open>
  A window with the UI shown, a sequence of hand-off steps in which texture 5 is published
  twice, and the window after the first two of these steps.
\<close>

definition visibleWindow :: ShadertoyWindow where
  "visibleWindow = newShadertoyWindow\<lparr>uiVisible := True\<rparr>"

definition handoffSteps :: "Step list" where
  "handoffSteps =
     [Publish 5, Render allSignaled, Render allSignaled, Publish 5, Render allSignaled]"

definition afterFirstFrame :: ShadertoyWindow where
  "afterFirstFrame = fst (run visibleWindow [Publish 5, Render allSignaled])"



text \<open>The window after texture 1 was shown and texture 2 was published.\<close>

definition secondPublished :: ShadertoyWindow where
  "secondPublished = fst (run visibleWindow [Publish 1, Render noneSignaled, Publish 2])"

section \<open>Alias resolution\<close>

lemma canonicalUrl_None: "m url = None \<Longrightarrow> canonicalUrl m url = Some url"
  by (subst canonicalUrl.simps) simp

lemma canonicalUrl_Some: "m url = Some url' \<Longrightarrow> canonicalUrl m url = canonicalUrl m url'"
  by (subst canonicalUrl.simps) simp

lemma canonicalUrl_hops:
  "hops m n url = Some v \<Longrightarrow> m v = None \<Longrightarrow> canonicalUrl m url = Some v"
  by (induction n arbitrary: url)
     (auto simp: canonicalUrl_None canonicalUrl_Some split: option.splits)

lemma canonicalUrl_sound:
  assumes ret: "canonicalUrl m url = Some v"
  shows "\<exists>n. hops m n url = Some v \<and> m v = None"
proof -
  have step: "\<exists>n. hops m n url = Some v \<and> m v = None"
    if IH: "\<And>m url v. f m url = Some v \<Longrightarrow> \<exists>n. hops m n url = Some v \<and> m v = None"
    and eq: "(case m url of None \<Rightarrow> Some url | Some url' \<Rightarrow> f m url') = Some v"
    for f :: "(QUrl \<rightharpoonup> QUrl) \<Rightarrow> QUrl \<Rightarrow> QUrl option" and m url v
  proof (cases "m url")
    case None
    with eq have "v = url" by simp
    with None have "hops m 0 url = Some v \<and> m v = None" by simp
    then show ?thesis by blast
  next
    case (Some u)
    with eq have "f m u = Some v" by simp
    from IH[OF this] obtain n where "hops m n u = Some v \<and> m v = None" by blast
    with Some have "hops m (Suc n) url = Some v \<and> m v = None" by simp
    then show ?thesis by blast
  qed
  show ?thesis
    by (rule canonicalUrl.raw_induct
          [where P = "\<lambda>m url v. \<exists>n. hops m n url = Some v \<and> m v = None", OF step ret])
qed

lemma aliasShaped_upd:
  "aliasShaped m \<Longrightarrow> \<not> prefix ''qrc:/'' k \<Longrightarrow> prefix ''qrc:/'' v \<Longrightarrow> aliasShaped (m(k \<mapsto> v))"
  unfolding aliasShaped_def by (simp split: if_splits)

lemma not_qrc_preset: "\<not> prefix ''qrc:/'' (''preset://'' @ x)"
  by simp

lemma not_qrc_presets: "\<not> prefix ''qrc:/'' (''/presets/'' @ x)"
  by simp

lemma qrc_prefix: "prefix ''qrc:/'' (''qrc:/'' @ path)"
  by simp

lemma aliasShaped_addAliases: "aliasShaped m \<Longrightarrow> aliasShaped (addAliases kind i path m)"
  unfolding addAliases_def Let_def
  by (intro aliasShaped_upd not_qrc_preset not_qrc_presets qrc_prefix)

lemma aliasShaped_initLoop:
  "aliasShaped (canonicalUrlMap s) \<Longrightarrow> aliasShaped (canonicalUrlMap (initLoop kind sz i rs s))"
  by (induction kind sz i rs s rule: initLoop.induct) (simp_all add: aliasShaped_addAliases)

lemma aliasShaped_initTextureCache:
  "aliasShaped (canonicalUrlMap s) \<Longrightarrow>
   aliasShaped (canonicalUrlMap (initTextureCache imageSize T C s))"
  by (simp add: initTextureCache_def aliasShaped_initLoop)

lemma aliasShaped_one_hop:
  assumes a: "aliasShaped m"
  shows "canonicalUrl m url = Some (case m url of None \<Rightarrow> url | Some v \<Rightarrow> v)"
proof (cases "m url")
  case None
  then show ?thesis by (simp add: canonicalUrl_None)
next
  case (Some v)
  have "m v = None"
  proof (cases "m v")
    case None
    then show ?thesis .
  next
    case (Some w)
    with a have "\<not> prefix ''qrc:/'' v" unfolding aliasShaped_def by blast
    moreover from a \<open>m url = Some v\<close> have "prefix ''qrc:/'' v" unfolding aliasShaped_def by blast
    ultimately show ?thesis by blast
  qed
  with Some show ?thesis by (simp add: canonicalUrl_None canonicalUrl_Some)
qed

lemma tex00Window_eq:
  "tex00Window = newShadertoyWindow
     \<lparr>canonicalUrlMap := [''preset://tex/0'' \<mapsto> tex00Url, ''preset://tex/00'' \<mapsto> tex00Url,
                          ''/presets/tex00.png'' \<mapsto> tex00Url],
      textureCache := [tex00Url \<mapsto> \<lparr>tex = Some 0, tex_size = (512, 512)\<rparr>],
      nextTexture := 1\<rparr>"
  by (simp add: tex00Window_def initTextureCache_def newShadertoyWindow_def addAliases_def
      Let_def decimal02_def digit_def tex00Url_def)

lemma hops_cycle:
  "hops [''a'' \<mapsto> ''b'', ''b'' \<mapsto> ''a''] n u = Some v \<Longrightarrow> u = ''a'' \<or> u = ''b'' \<Longrightarrow>
   v = ''a'' \<or> v = ''b''"
  by (induction n arbitrary: u) (auto split: option.splits if_splits)

lemma canonicalUrl_cycle: "canonicalUrl [''a'' \<mapsto> ''b'', ''b'' \<mapsto> ''a''] ''a'' = None"
proof (cases "canonicalUrl [''a'' \<mapsto> ''b'', ''b'' \<mapsto> ''a''] ''a''")
  case None
  then show ?thesis .
next
  case (Some v)
  then obtain n where n: "hops [''a'' \<mapsto> ''b'', ''b'' \<mapsto> ''a''] n ''a'' = Some v"
    and v: "[''a'' \<mapsto> ''b'', ''b'' \<mapsto> ''a''] v = None"
    using canonicalUrl_sound by blast
  from hops_cycle[OF n] have "v = ''a'' \<or> v = ''b''" by simp
  with v have False by auto
  then show ?thesis ..
qed

text \<open>
  C3, as the spec has it: resolution reaches a fixed point within a bounded number of hops
  and treats a cyclic or too deep chain as a failure, so it returns on every input.  It
  does not: on the table \<open>a \<mapsto> b, b \<mapsto> a\<close> the loop never leaves the two keys, and
  \<open>loadTexture\<close> does not return.
\<close>

theorem loadTexture_cyclic_no_return:
  "canonicalUrl (canonicalUrlMap cyclicWindow) ''a'' = None \<and>
   loadTexture cyclicWindow ''a'' = Inl NoReturn"
proof -
  have m: "canonicalUrlMap cyclicWindow = [''a'' \<mapsto> ''b'', ''b'' \<mapsto> ''a'']"
    by (simp add: cyclicWindow_def newShadertoyWindow_def)
  show ?thesis
    by (simp add: loadTexture_def m canonicalUrl_cycle)
qed

text \<open>
  C3, amended: resolution follows the alias table hop by hop, with no bound on the hops and
  no check for cycles.  It returns \<open>v\<close> exactly when some number \<open>n\<close> of hops from the input
  ends in \<open>v\<close> and \<open>v\<close> is not a key of the table; otherwise it does not return.  On the
  table that \<open>initTextureCache\<close> builds from an empty one, it returns after at most one hop.
\<close>

theorem canonicalUrl_returns_iff:
  "((canonicalUrl m url = Some v) = (\<exists>n. hops m n url = Some v \<and> m v = None)) \<and>
   (canonicalUrlMap s = Map.empty \<longrightarrow>
      canonicalUrl (canonicalUrlMap (initTextureCache imageSize T C s)) url =
        Some (case canonicalUrlMap (initTextureCache imageSize T C s) url of
                None \<Rightarrow> url | Some v' \<Rightarrow> v'))"
proof (intro conjI impI)
  show "(canonicalUrl m url = Some v) = (\<exists>n. hops m n url = Some v \<and> m v = None)"
    using canonicalUrl_sound canonicalUrl_hops by blast
next
  assume "canonicalUrlMap s = Map.empty"
  then have "aliasShaped (canonicalUrlMap s)" by (simp add: aliasShaped_def)
  then have "aliasShaped (canonicalUrlMap (initTextureCache imageSize T C s))"
    by (rule aliasShaped_initTextureCache)
  then show "canonicalUrl (canonicalUrlMap (initTextureCache imageSize T C s)) url =
        Some (case canonicalUrlMap (initTextureCache imageSize T C s) url of
                None \<Rightarrow> url | Some v' \<Rightarrow> v')"
    by (rule aliasShaped_one_hop)
qed

theorem canonicalUrl_returns_iff_witness:
  "canonicalUrlMap newShadertoyWindow = Map.empty \<and>
   canonicalUrl (canonicalUrlMap tex00Window) ''preset://tex/00'' = Some tex00Url \<and>
   hops (canonicalUrlMap tex00Window) 1 ''preset://tex/00'' = Some tex00Url \<and>
   canonicalUrlMap tex00Window tex00Url = None"
proof -
  have e: "canonicalUrlMap newShadertoyWindow = Map.empty"
    by (simp add: newShadertoyWindow_def)
  have m: "canonicalUrlMap tex00Window =
      [''preset://tex/0'' \<mapsto> tex00Url, ''preset://tex/00'' \<mapsto> tex00Url,
       ''/presets/tex00.png'' \<mapsto> tex00Url]"
    by (simp add: tex00Window_eq newShadertoyWindow_def)
  have h: "hops (canonicalUrlMap tex00Window) 1 ''preset://tex/00'' = Some tex00Url"
    by (simp add: m)
  have n: "canonicalUrlMap tex00Window tex00Url = None"
    by (simp add: m tex00Url_def)
  note w = canonicalUrl_returns_iff
    [where m = "canonicalUrlMap tex00Window" and url = "''preset://tex/00''" and v = tex00Url
       and s = newShadertoyWindow and imageSize = "\<lambda>path. (512, 512)"
       and T = "[Some ''textures/tex00.png'']" and C = "[]"]
  from w[THEN conjunct2, rule_format, OF e]
  have "canonicalUrl (canonicalUrlMap tex00Window) ''preset://tex/00'' =
        Some (case canonicalUrlMap tex00Window ''preset://tex/00'' of
                None \<Rightarrow> ''preset://tex/00'' | Some v' \<Rightarrow> v')"
    by (simp only: tex00Window_def)
  then have c: "canonicalUrl (canonicalUrlMap tex00Window) ''preset://tex/00'' = Some tex00Url"
    by (simp add: m)
  from w[THEN conjunct1] c have "\<exists>n. hops (canonicalUrlMap tex00Window) n ''preset://tex/00'' =
      Some tex00Url \<and> canonicalUrlMap tex00Window tex00Url = None"
    by simp
  with e c h n show ?thesis by simp
qed

section \<open>Setting a channel\<close>


lemma assignChannel_fields [simp]:
  "channelSources (assignChannel s c ch) = channelSources s"
  "uploads (assignChannel s c ch) = uploads s"
  "uniformLambdas (assignChannel s c ch) = uniformLambdas s"
  "channels (assignChannel s c ch) = (channels s)[nat c := ch]"
  by (simp_all add: assignChannel_def)









section \<open>The uniform closures\<close>

lemma count_list_channelLambda:
  "count_list (channelLambda env p chans j) (BindChannel i) =
     (if i = j \<and> UNIFORM_CHANNELS env j \<in> dom (activeUniforms p) \<and> texture (chans ! j) \<noteq> None
      then 1 else 0)"
  by (simp add: channelLambda_def)

lemma count_list_append: "count_list (xs @ ys) a = count_list xs a + count_list ys a"
  by (induction xs) auto

lemma channelLambda_other:
  "count_list (channelLambda env p chans j) SetGlobalTime = 0"
  "count_list (channelLambda env p chans j) SetResolution = 0"
  "count_list (channelLambda env p chans j) SetPosition = 0"
  by (simp_all add: channelLambda_def)

lemma filter_isBindChannel_channelLambda:
  "filter isBindChannel (channelLambda env p chans j) = channelLambda env p chans j"
  by (simp add: channelLambda_def isBindChannel_def)

lemma lambdasFor_counts:
  "count_list (lambdasFor env p chans) SetGlobalTime =
     (if UNIFORM_GLOBALTIME env \<in> dom (activeUniforms p) then 1 else 0)"
  "count_list (lambdasFor env p chans) SetResolution =
     (if UNIFORM_RESOLUTION env \<in> dom (activeUniforms p) then 1 else 0)"
  "count_list (lambdasFor env p chans) SetPosition =
     (if USE_RIFT env \<and> UNIFORM_POSITION env \<in> dom (activeUniforms p) then 1 else 0)"
  by (simp_all add: lambdasFor_def count_list_append channelLambda_other)

lemma lambdasFor_count_channel:
  "count_list (lambdasFor env p chans) (BindChannel i) =
     (if i < 4 \<and> UNIFORM_CHANNELS env i \<in> dom (activeUniforms p) \<and> texture (chans ! i) \<noteq> None
      then 1 else 0)"
proof -
  have "i < 4 \<longleftrightarrow> i = 0 \<or> i = 1 \<or> i = 2 \<or> i = 3" by auto
  then show ?thesis
    by (auto simp add: lambdasFor_def count_list_append count_list_channelLambda)
qed

lemma length_channelLambda:
  "length (channelLambda env p chans j) = 
    (if UNIFORM_CHANNELS env j \<in> dom (activeUniforms p) \<and> texture (chans ! j) \<noteq> None then 1 else 0)"
  by (simp add: channelLambda_def)

lemma lambdasFor_bind_count:
  "length (filter isBindChannel (lambdasFor env p chans)) = length (boundSlots env p chans)"
  by (simp add: lambdasFor_def boundSlots_def isBindChannel_def filter_isBindChannel_channelLambda length_channelLambda)


text \<open>
  C6, amended: \<open>updateUniforms\<close> replaces the closure list by one closure for the time
  uniform if it is active, one for the resolution uniform if it is active, one for the
  position uniform if it is active and the build has \<open>USE_RIFT\<close>, and one for each slot
  \<open>0..3\<close> whose sampler is active \<^emph>\<open>and\<close> whose slot holds a texture at that moment; nothing
  else.  So a program without the position uniform gets no position closure, and the
  number of channel closures is the number of slots with an active sampler and a texture.
\<close>

theorem updateUniforms_lambdas:
  assumes p: "shadertoyProgram s = Some p"
  shows "updateUniforms env s = Inr (s\<lparr>uniformLambdas := lambdasFor env p (channels s)\<rparr>) \<and>
    count_list (lambdasFor env p (channels s)) SetGlobalTime =
      (if UNIFORM_GLOBALTIME env \<in> dom (activeUniforms p) then 1 else 0) \<and>
    count_list (lambdasFor env p (channels s)) SetResolution =
      (if UNIFORM_RESOLUTION env \<in> dom (activeUniforms p) then 1 else 0) \<and>
    count_list (lambdasFor env p (channels s)) SetPosition =
      (if USE_RIFT env \<and> UNIFORM_POSITION env \<in> dom (activeUniforms p) then 1 else 0) \<and>
    count_list (lambdasFor env p (channels s)) (BindChannel i) =
      (if i < 4 \<and> UNIFORM_CHANNELS env i \<in> dom (activeUniforms p) \<and>
          texture (channels s ! i) \<noteq> None then 1 else 0) \<and>
    length (filter isBindChannel (lambdasFor env p (channels s))) =
      length (boundSlots env p (channels s))"
  using p
  by (simp only: lambdasFor_counts lambdasFor_count_channel lambdasFor_bind_count)
     (simp add: updateUniforms_def)

lemma twoSlots_program: "shadertoyProgram twoSlotsWindow = Some \<lparr>activeUniforms = fourSamplers\<rparr>"
  by (simp add: twoSlotsWindow_def)

lemma twoSlots_bound:
  "boundSlots (demoEnv fourSamplers) \<lparr>activeUniforms = fourSamplers\<rparr> (channels twoSlotsWindow) = [0, 2]"
  by (simp add: boundSlots_def demoEnv_def twoSlotsWindow_def newShadertoyWindow_def
      fourSamplers_def digit_def)

theorem updateUniforms_lambdas_witness:
  "shadertoyProgram twoSlotsWindow = Some \<lparr>activeUniforms = fourSamplers\<rparr> \<and>
   count_list (lambdasFor (demoEnv fourSamplers) \<lparr>activeUniforms = fourSamplers\<rparr>
                 (channels twoSlotsWindow)) SetPosition = 0 \<and>
   length (filter isBindChannel
             (lambdasFor (demoEnv fourSamplers) \<lparr>activeUniforms = fourSamplers\<rparr>
                (channels twoSlotsWindow))) = 2"
proof -
  note w = updateUniforms_lambdas[OF twoSlots_program, of "demoEnv fourSamplers" 0]
  have np: "UNIFORM_POSITION (demoEnv fourSamplers) \<notin> dom fourSamplers"
    by (simp add: demoEnv_def fourSamplers_def)
  from w np have "count_list (lambdasFor (demoEnv fourSamplers) \<lparr>activeUniforms = fourSamplers\<rparr>
                 (channels twoSlotsWindow)) SetPosition = 0"
    by simp
  moreover from w have "length (filter isBindChannel
             (lambdasFor (demoEnv fourSamplers) \<lparr>activeUniforms = fourSamplers\<rparr>
                (channels twoSlotsWindow))) = 2"
    by (simp add: twoSlots_bound)
  ultimately show ?thesis using twoSlots_program by simp
qed

text \<open>
  C6, as the spec has it: one closure for every well-known uniform that is active.  In a
  build without \<open>USE_RIFT\<close> the closure of the position uniform is compiled out: a program
  with the time and the position uniform active gets the time closure alone.
\<close>

theorem position_uniform_without_rift:
  "UNIFORM_POSITION (noRiftEnv timeAndPosition) \<in> dom timeAndPosition \<and>
   shadertoyProgram positionWindow = Some \<lparr>activeUniforms = timeAndPosition\<rparr> \<and>
   updateUniforms (noRiftEnv timeAndPosition) positionWindow =
     Inr (positionWindow\<lparr>uniformLambdas := [SetGlobalTime]\<rparr>)"
proof -
  have "lambdasFor (noRiftEnv timeAndPosition) \<lparr>activeUniforms = timeAndPosition\<rparr>
          (channels positionWindow) = [SetGlobalTime]"
    by (simp add: lambdasFor_def channelLambda_def noRiftEnv_def demoEnv_def positionWindow_def
        newShadertoyWindow_def timeAndPosition_def digit_def)
  then show ?thesis
    by (simp add: updateUniforms_def positionWindow_def)
       (simp add: noRiftEnv_def demoEnv_def timeAndPosition_def)
qed

lemma loadTexture_channels:
  "loadTexture s src = Inr (s2, t) \<Longrightarrow> channels s2 = channels s \<and> uniformLambdas s2 = uniformLambdas s"
  by (auto simp: loadTexture_def split: option.splits)

lemma setChannelTextureInternal_lambdas:
  assumes r: "setChannelTextureInternal s channel type textureSource = Inr s'"
  shows "uniformLambdas s' = uniformLambdas s \<and>
         (\<forall>i. i \<noteq> nat channel \<longrightarrow> channels s' ! i = channels s ! i)"
proof (cases "textureSource = channelSources s ! nat channel")
  case True
  with r have "s' = s" by (auto simp: setChannelTextureInternal_def split: if_splits)
  then show ?thesis by simp
next
  case False
  let ?s1 = "s\<lparr>channelSources := (channelSources s)[nat channel := textureSource]\<rparr>"
  from r False obtain s2 ch where
    "s' = assignChannel s2 channel ch" "channels s2 = channels s" "uniformLambdas s2 = uniformLambdas s"
  proof (cases "textureSource = []")
    case True
    with r False have "s' = assignChannel ?s1 channel \<lparr>target = Tex2D, texture = None\<rparr>"
      by (auto simp: setChannelTextureInternal_def Let_def split: if_splits)
    with that show ?thesis by simp
  next
    case ne: False
    show ?thesis
    proof (cases "type = TEXTURE \<or> type = CUBEMAP")
      case True
      with r False ne obtain s2 t tg where
        l: "loadTexture ?s1 textureSource = Inr (s2, t)" and
        s': "s' = assignChannel s2 channel \<lparr>target = tg, texture = t\<rparr>"
        by (auto simp: setChannelTextureInternal_def Let_def split: sum.splits if_splits)
      from loadTexture_channels[OF l] s' that show ?thesis by simp
    next
      case other: False
      with r False ne have
        "s' = assignChannel ?s1 channel \<lparr>target = Indeterminate, texture = None\<rparr>"
        by (cases type) (auto simp: setChannelTextureInternal_def Let_def split: if_splits)
      with that show ?thesis by simp
    qed
  qed
  then show ?thesis by simp
qed

lemma BindChannel_in_lambdasFor:
  "BindChannel i \<in> set (lambdasFor env p chans) \<Longrightarrow> i < 4"
  by (auto simp: lambdasFor_def channelLambda_def split: if_splits)

text \<open>
  C7, amended: a channel closure has its slot index fixed when it is built, and reads the
  slot itself when it is called: it binds the texture the slot holds then, to the target
  the slot has then, and does nothing if the slot is empty.  A change of a slot leaves
  the list of closures as it is, changes what the closure of that slot binds, and does
  not change what the closures of the other slots bind.
\<close>

theorem channel_lambda_reads_current_slot:
  assumes u: "updateUniforms env s = Inr s1"
      and c: "setChannelTextureInternal s1 channel type textureSource = Inr s2"
      and b: "BindChannel i \<in> set (uniformLambdas s1)"
  shows "uniformLambdas s2 = uniformLambdas s1 \<and> i < 4 \<and>
         invoke env fr s2 (BindChannel i) =
           (case texture (channels s2 ! i) of
              None \<Rightarrow> []
            | Some t \<Rightarrow> [ActiveTexture i, BindTexture t (target (channels s2 ! i))]) \<and>
         (i \<noteq> nat channel \<longrightarrow>
            invoke env fr s2 (BindChannel i) = invoke env fr s1 (BindChannel i))"
proof -
  from u obtain p where "uniformLambdas s1 = lambdasFor env p (channels s)"
    by (auto simp: updateUniforms_def split: option.splits)
  with b have "i < 4" by (auto dest: BindChannel_in_lambdasFor)
  with setChannelTextureInternal_lambdas[OF c] show ?thesis
    by (simp cong: option.case_cong)
qed

lemma tex00Loaded_eq:
  "tex00Loaded = newShadertoyWindow
     \<lparr>canonicalUrlMap := [''preset://tex/0'' \<mapsto> tex00Url, ''preset://tex/00'' \<mapsto> tex00Url,
                          ''/presets/tex00.png'' \<mapsto> tex00Url],
      textureCache := [tex00Url \<mapsto> \<lparr>tex = Some 0, tex_size = (512, 512)\<rparr>],
      nextTexture := 1,
      channelSources := [tex00Url, [], [], []],
      channels := [\<lparr>target = Tex2D, texture = Some 0\<rparr>,
                   \<lparr>target = Indeterminate, texture = None\<rparr>,
                   \<lparr>target = Indeterminate, texture = None\<rparr>,
                   \<lparr>target = Indeterminate, texture = None\<rparr>]\<rparr>"
  by (simp add: tex00Loaded_def tex00Window_eq assignChannel_def newShadertoyWindow_def)

lemma tex00Loaded_channels:
  "channels tex00Loaded = [\<lparr>target = Tex2D, texture = Some 0\<rparr>,
                   \<lparr>target = Indeterminate, texture = None\<rparr>,
                   \<lparr>target = Indeterminate, texture = None\<rparr>,
                   \<lparr>target = Indeterminate, texture = None\<rparr>]"
  by (simp add: tex00Loaded_eq)

lemma channel0_lambdas:
  "lambdasFor (demoEnv [''iChannel0'' \<mapsto> 0]) \<lparr>activeUniforms = [''iChannel0'' \<mapsto> 0]\<rparr>
     (channels tex00Loaded) = [BindChannel 0]"
  by (simp add: tex00Loaded_channels lambdasFor_def channelLambda_def demoEnv_def digit_def)

lemma rebuiltWindow_eq: "rebuiltWindow = Inr rebuiltState"
  by (simp add: rebuiltWindow_def rebuiltState_def updateUniforms_def channel0_lambdas)


lemma noise_canonical:
  "canonicalUrl (canonicalUrlMap tex00Loaded) ''/tmp/noise.png'' = Some ''/tmp/noise.png''"
  by (rule canonicalUrl_None) (simp add: tex00Loaded_eq)

lemma noise_not_cached: "textureCache tex00Loaded ''/tmp/noise.png'' = None"
  by (simp add: tex00Loaded_eq tex00Url_def)

lemma noise_differs: "''/tmp/noise.png'' \<noteq> channelSources tex00Loaded ! 0"
  by (simp add: tex00Loaded_eq tex00Url_def)

lemma mutate_rebuilt:
  "setChannelTextureInternal rebuiltState 0 TEXTURE ''/tmp/noise.png'' = Inr mutatedState"
  using noise_differs
  by (simp add: setChannelTextureInternal_def loadTexture_def Let_def assignChannel_def
        noise_canonical noise_not_cached rebuiltState_def mutatedState_def)

lemma mutatedWindow_eq: "mutatedWindow = Inr mutatedState"
  by (simp add: mutatedWindow_def rebuiltWindow_eq andThen_def mutate_rebuilt)

lemma nextTexture_tex00Loaded: "nextTexture tex00Loaded = 1"
  by (simp add: tex00Loaded_eq)

text \<open>
  C7, as the spec has it: what a closure binds does not change when the slot changes, until
  the closures are rebuilt.  Here the closure of slot 0 is built while the slot holds
  texture 0; the slot is then given texture 1 and the closures are not rebuilt; the same
  closure now binds texture 1.
\<close>

theorem lambda_follows_slot_mutation:
  "lambdasOf rebuiltWindow = Some [BindChannel 0] \<and>
   lambdasOf mutatedWindow = Some [BindChannel 0] \<and>
   runLambdasOf (demoEnv [''iChannel0'' \<mapsto> 0]) demoFrame rebuiltWindow =
     Some [ActiveTexture 0, BindTexture 0 Tex2D] \<and>
   runLambdasOf (demoEnv [''iChannel0'' \<mapsto> 0]) demoFrame mutatedWindow =
     Some [ActiveTexture 0, BindTexture 1 Tex2D]"
  unfolding mutatedWindow_eq rebuiltWindow_eq
  by (simp add: lambdasOf_def runLambdasOf_def runLambdas_def rebuiltState_def mutatedState_def
        tex00Loaded_channels nextTexture_tex00Loaded)

theorem channel_lambda_reads_current_slot_witness:
  "updateUniforms (demoEnv [''iChannel0'' \<mapsto> 0])
     (tex00Loaded\<lparr>shadertoyProgram := Some \<lparr>activeUniforms = [''iChannel0'' \<mapsto> 0]\<rparr>\<rparr>) =
     Inr rebuiltState \<and>
   setChannelTextureInternal rebuiltState 0 TEXTURE ''/tmp/noise.png'' = Inr mutatedState \<and>
   BindChannel 0 \<in> set (uniformLambdas rebuiltState) \<and>
   uniformLambdas mutatedState = uniformLambdas rebuiltState \<and>
   invoke (demoEnv [''iChannel0'' \<mapsto> 0]) demoFrame mutatedState (BindChannel 0) =
     [ActiveTexture 0, BindTexture 1 Tex2D]"
proof -
  have u: "updateUniforms (demoEnv [''iChannel0'' \<mapsto> 0])
     (tex00Loaded\<lparr>shadertoyProgram := Some \<lparr>activeUniforms = [''iChannel0'' \<mapsto> 0]\<rparr>\<rparr>) =
     Inr rebuiltState"
    using rebuiltWindow_eq by (simp add: rebuiltWindow_def)
  have b: "BindChannel 0 \<in> set (uniformLambdas rebuiltState)"
    by (simp add: rebuiltState_def)
  have t: "texture (channels mutatedState ! 0) = Some 1 \<and> target (channels mutatedState ! 0) = Tex2D"
    by (simp add: mutatedState_def rebuiltState_def tex00Loaded_channels nextTexture_tex00Loaded)
  from channel_lambda_reads_current_slot[OF u mutate_rebuilt b, of demoFrame] t
  have "uniformLambdas mutatedState = uniformLambdas rebuiltState \<and>
        invoke (demoEnv [''iChannel0'' \<mapsto> 0]) demoFrame mutatedState (BindChannel 0) =
          [ActiveTexture 0, BindTexture 1 Tex2D]"
    by simp
  with u mutate_rebuilt b show ?thesis by blast
qed

section \<open>Building the shader: failure and success\<close>

lemma build_vertex_fails:
  assumes "\<not> vertexReady env s"
  shows "\<exists>errLog. compileVertex env (SHADERTOY_SHADERS_DEFAULT_VS env) = Some errLog \<and>
     setShaderSourceInternal env now s source =
       Inr (s\<lparr>position := (0, 0, 0),
              vertexShader := Some (SHADERTOY_SHADERS_DEFAULT_VS env),
              signals := signals s @ [compileError errLog]\<rparr>, False)"
  using assms
  by (cases "compileVertex env (SHADERTOY_SHADERS_DEFAULT_VS env)")
     (simp_all add: vertexReady_def setShaderSourceInternal_def buildError_def Let_def)

lemma build_fragment_fails:
  assumes "vertexReady env s"
      and "compileFragment env (fragmentSourceOf env s source) = Some errLog"
  shows "setShaderSourceInternal env now s source =
       Inr (s\<lparr>position := (0, 0, 0),
              vertexShader := Some (vertexSourceOf env s),
              vrMode := contains source ''#pragma vr'',
              signals := signals s @ [compileError errLog]\<rparr>, False)"
  using assms
  by (cases "vertexShader s")
     (simp_all add: vertexReady_def setShaderSourceInternal_def buildError_def Let_def
        fragmentSourceOf_def vertexSourceOf_def)

lemma build_link_fails:
  assumes "vertexReady env s"
      and "compileFragment env (fragmentSourceOf env s source) = None"
      and "linkProgram env (vertexSourceOf env s) (fragmentSourceOf env s source) = Inl errLog"
  shows "setShaderSourceInternal env now s source =
       Inr (s\<lparr>position := (0, 0, 0),
              vertexShader := Some (vertexSourceOf env s),
              vrMode := contains source ''#pragma vr'',
              signals := signals s @ [compileError errLog]\<rparr>, False)"
  using assms
  by (cases "vertexShader s")
     (simp_all add: vertexReady_def setShaderSourceInternal_def buildError_def Let_def
        fragmentSourceOf_def vertexSourceOf_def)

lemma build_succeeds:
  assumes "vertexReady env s"
      and "compileFragment env (fragmentSourceOf env s source) = None"
      and "linkProgram env (vertexSourceOf env s) (fragmentSourceOf env s source) = Inr result"
  shows "setShaderSourceInternal env now s source =
       Inr (s\<lparr>position := (0, 0, 0),
              vertexShader := Some (vertexSourceOf env s),
              vrMode := contains source ''#pragma vr'',
              shadertoyProgram := Some result,
              skybox := (case skybox s of None \<Rightarrow> Some result | Some sb \<Rightarrow> Some sb),
              fragmentShader := Some (fragmentSourceOf env s source),
              uniformLambdas := lambdasFor env result (channels s),
              startTime := now,
              signals := signals s @ [compileSuccess]\<rparr>, True)"
  using assms
  by (cases "vertexShader s"; cases "skybox s")
     (simp_all add: vertexReady_def setShaderSourceInternal_def buildError_def Let_def
        fragmentSourceOf_def vertexSourceOf_def updateUniforms_def)


lemma buildLog_Some:
  assumes "buildLog env s source = Some errLog"
  shows "(\<not> vertexReady env s \<and> compileVertex env (SHADERTOY_SHADERS_DEFAULT_VS env) = Some errLog) \<or>
         (vertexReady env s \<and> compileFragment env (fragmentSourceOf env s source) = Some errLog) \<or>
         (vertexReady env s \<and> compileFragment env (fragmentSourceOf env s source) = None \<and>
          linkProgram env (vertexSourceOf env s) (fragmentSourceOf env s source) = Inl errLog)"
  using assms by (auto simp: buildLog_def split: if_splits option.splits sum.splits)

lemma buildLog_None:
  assumes "buildLog env s source = None"
  shows "vertexReady env s \<and> compileFragment env (fragmentSourceOf env s source) = None \<and>
         (\<exists>result. linkProgram env (vertexSourceOf env s) (fragmentSourceOf env s source) = Inr result)"
  using assms by (auto simp: buildLog_def vertexReady_def split: if_splits option.splits sum.splits)

lemma build_failure:
  assumes b: "buildLog env s source = Some errLog"
  shows "\<exists>s'. setShaderSourceInternal env now s source = Inr (s', False) \<and>
           signals s' = signals s @ [compileError errLog] \<and>
           shadertoyProgram s' = shadertoyProgram s \<and>
           fragmentShader s' = fragmentShader s \<and>
           uniformLambdas s' = uniformLambdas s \<and>
           startTime s' = startTime s \<and>
           skybox s' = skybox s \<and>
           channels s' = channels s \<and>
           position s' = (0, 0, 0) \<and>
           vrMode s' = (if vertexReady env s then contains source ''#pragma vr'' else vrMode s)"
proof -
  from buildLog_Some[OF b] show ?thesis
  proof (elim disjE conjE)
    assume v: "\<not> vertexReady env s"
      "compileVertex env (SHADERTOY_SHADERS_DEFAULT_VS env) = Some errLog"
    from build_vertex_fails[OF v(1), of now source] v show ?thesis by auto
  next
    assume f: "vertexReady env s"
      "compileFragment env (fragmentSourceOf env s source) = Some errLog"
    from build_fragment_fails[OF f, of now] f(1) show ?thesis by simp
  next
    assume l: "vertexReady env s" "compileFragment env (fragmentSourceOf env s source) = None"
      "linkProgram env (vertexSourceOf env s) (fragmentSourceOf env s source) = Inl errLog"
    from build_link_fails[OF l, of now] l(1) show ?thesis by simp
  qed
qed

lemma build_success:
  assumes b: "buildLog env s source = None"
  shows "\<exists>result. linkProgram env (vertexSourceOf env s) (fragmentSourceOf env s source) = Inr result \<and>
     setShaderSourceInternal env now s source =
       Inr (s\<lparr>position := (0, 0, 0),
              vertexShader := Some (vertexSourceOf env s),
              vrMode := contains source ''#pragma vr'',
              shadertoyProgram := Some result,
              skybox := (case skybox s of None \<Rightarrow> Some result | Some sb \<Rightarrow> Some sb),
              fragmentShader := Some (fragmentSourceOf env s source),
              uniformLambdas := lambdasFor env result (channels s),
              startTime := now,
              signals := signals s @ [compileSuccess]\<rparr>, True)"
proof -
  from buildLog_None[OF b] obtain result where
    r: "vertexReady env s" "compileFragment env (fragmentSourceOf env s source) = None"
       "linkProgram env (vertexSourceOf env s) (fragmentSourceOf env s source) = Inr result"
    by blast
  from build_succeeds[OF r, of now] r(3) show ?thesis by blast
qed

lemma buildLog_again:
  assumes "vertexReady env s" and "vertexShader s' = Some (vertexSourceOf env s)"
      and "channels s' = channels s"
  shows "buildLog env s' source = buildLog env s source"
proof -
  from assms(2) have v: "vertexSourceOf env s' = vertexSourceOf env s"
    by (simp add: vertexSourceOf_def)
  from assms(3) have f: "fragmentSourceOf env s' source = fragmentSourceOf env s source"
    by (simp add: fragmentSourceOf_def)
  from assms(2) have r: "vertexReady env s'"
    by (simp add: vertexReady_def)
  show ?thesis
    unfolding buildLog_def v f using r assms(1) by simp
qed

text \<open>
  C4, amended: when the vertex compilation, the fragment compilation or the link fails,
  the build returns false without throwing, emits \<open>compileError\<close> with the build log
  exactly as the compiler or linker produced it (so the diagnostic is non-empty when that
  log is), and leaves the current program, the fragment shader, the closure list, the
  time origin, the skybox and the channels as they were.
\<close>

theorem build_failure_keeps_program:
  assumes "buildLog env s source = Some errLog"
  shows "\<exists>s'. setShaderSourceInternal env now s source = Inr (s', False) \<and>
           signals s' = signals s @ [compileError errLog] \<and>
           shadertoyProgram s' = shadertoyProgram s \<and>
           fragmentShader s' = fragmentShader s \<and>
           uniformLambdas s' = uniformLambdas s \<and>
           startTime s' = startTime s \<and>
           skybox s' = skybox s \<and>
           channels s' = channels s"
  using build_failure[OF assms, of now] by blast

text \<open>
  C5: every build that compiles and links returns true and sets \<open>startTime\<close> to the current
  elapsed time, so that the time closure, which sets the uniform to the elapsed time minus
  \<open>startTime\<close>, gives zero at that moment; the new program has a time closure exactly when
  its time uniform is active.  The source is not compared with the current one: building
  the same source again, at \<open>now'\<close>, succeeds again and moves \<open>startTime\<close> to \<open>now'\<close>.
\<close>

theorem build_success_restarts_time:
  assumes b: "buildLog env s source = None"
  shows "\<exists>s'. setShaderSourceInternal env now s source = Inr (s', True) \<and>
           startTime s' = now \<and>
           invoke env fr s' SetGlobalTime =
             [UniformFloat (UNIFORM_GLOBALTIME env) (elapsedSeconds fr - now)] \<and>
           invoke env (fr\<lparr>elapsedSeconds := now\<rparr>) s' SetGlobalTime =
             [UniformFloat (UNIFORM_GLOBALTIME env) 0] \<and>
           (\<exists>p. shadertoyProgram s' = Some p \<and>
                (SetGlobalTime \<in> set (uniformLambdas s')) =
                (UNIFORM_GLOBALTIME env \<in> dom (activeUniforms p))) \<and>
           fragmentShader s' = Some (fragmentSourceOf env s' source) \<and>
           (\<exists>s''. setShaderSourceInternal env now' s' source = Inr (s'', True) \<and>
                  startTime s'' = now')"
proof -
  from build_success[OF b, of now] obtain result s' where
    r: "setShaderSourceInternal env now s source = Inr (s', True)" and
    s': "s' = s\<lparr>position := (0, 0, 0),
              vertexShader := Some (vertexSourceOf env s),
              vrMode := contains source ''#pragma vr'',
              shadertoyProgram := Some result,
              skybox := (case skybox s of None \<Rightarrow> Some result | Some sb \<Rightarrow> Some sb),
              fragmentShader := Some (fragmentSourceOf env s source),
              uniformLambdas := lambdasFor env result (channels s),
              startTime := now,
              signals := signals s @ [compileSuccess]\<rparr>"
    by blast
  from buildLog_None[OF b] have vr: "vertexReady env s" by blast
  have "buildLog env s' source = buildLog env s source"
    by (rule buildLog_again[OF vr]) (simp_all add: s')
  with b have "buildLog env s' source = None" by simp
  from build_success[OF this, of now'] obtain s'' where
    "setShaderSourceInternal env now' s' source = Inr (s'', True)" "startTime s'' = now'"
    by auto
  moreover have "(SetGlobalTime \<in> set (lambdasFor env result (channels s))) =
                (UNIFORM_GLOBALTIME env \<in> dom (activeUniforms result))"
    by (auto simp: lambdasFor_def channelLambda_def)
  ultimately show ?thesis using r
    by (simp add: s' fragmentSourceOf_def)
qed

text \<open>
  C10, amended: every build returns, with the viewer position reset to zero, whether it
  succeeds or fails.  \<open>vrMode\<close> is recomputed from whether the source contains
  \<open>#pragma vr\<close>, before the fragment shader is compiled, whenever the vertex shader exists
  already or its compilation in this call succeeds; when that compilation fails, the call
  fails with \<open>vrMode\<close> as it was.  A failed build leaves the program and the closure list
  as they were, so it can change position and display mode under the old program.
\<close>

theorem build_resets_position_and_mode:
  "\<exists>s' ok. setShaderSourceInternal env now s source = Inr (s', ok) \<and>
     position s' = (0, 0, 0) \<and>
     (vertexReady env s \<longrightarrow> vrMode s' = contains source ''#pragma vr'') \<and>
     (\<not> vertexReady env s \<longrightarrow> vrMode s' = vrMode s \<and> \<not> ok) \<and>
     (\<not> ok \<longrightarrow> shadertoyProgram s' = shadertoyProgram s \<and>
                  uniformLambdas s' = uniformLambdas s)"
proof (cases "buildLog env s source")
  case None
  from build_success[OF None, of now] buildLog_None[OF None] show ?thesis by auto
next
  case (Some errLog)
  from build_failure[OF Some, of now] show ?thesis by (auto split: if_splits)
qed


lemma contains_append2: "contains ys pat \<Longrightarrow> contains (xs @ ys) pat"
  by (induction xs) simp_all

lemma running_vertexReady: "vertexReady env runningWindow"
  by (simp add: vertexReady_def runningWindow_def)

lemma demo_rewrite: "legacyRewrite (demoEnv au) source = source"
  by (simp add: legacyRewrite_def demoEnv_def)

lemma demo_header:
  "fragmentHeader (demoEnv au) (channels runningWindow) =
     ''#version 330'' @ [CHR 0x0A] @
     ''uniform sampler2D iChannel0;'' @ [CHR 0x0A] @
     ''uniform sampler2D iChannel1;'' @ [CHR 0x0A] @
     ''uniform samplerCube iChannel2;'' @ [CHR 0x0A] @
     ''uniform sampler2D iChannel3;'' @ [CHR 0x0A] @
     ''#line 1'' @ [CHR 0x0A]"
  by (simp add: fragmentHeader_def samplerLine_def demoEnv_def digit_def
      runningWindow_def twoSlotsWindow_def)

lemma broken_has_error: "contains (fragmentSourceOf (demoEnv au) runningWindow brokenSource) ''#error''"
  unfolding fragmentSourceOf_def demo_rewrite
  by (rule contains_append2) (simp add: brokenSource_def)

lemma good_has_no_error:
  "\<not> contains (fragmentSourceOf (demoEnv au) runningWindow goodSource) ''#error''"
  unfolding fragmentSourceOf_def demo_rewrite demo_header
  by (simp add: goodSource_def)

lemma broken_buildLog:
  "buildLog (demoEnv fourSamplers) runningWindow brokenSource = Some ''0(1) : error C0000''"
  using broken_has_error[of fourSamplers]
  by (simp add: buildLog_def running_vertexReady) (simp add: demoEnv_def)

lemma good_buildLog: "buildLog (demoEnv fourSamplers) runningWindow goodSource = None"
  using good_has_no_error[of fourSamplers]
  by (simp add: buildLog_def running_vertexReady) (simp add: demoEnv_def)

lemma silent_buildLog: "buildLog silentEnv runningWindow goodSource = Some []"
  by (simp add: buildLog_def running_vertexReady) (simp add: silentEnv_def)

lemma running_fields:
  "signals runningWindow = []"
  "shadertoyProgram runningWindow = Some \<lparr>activeUniforms = fourSamplers\<rparr>"
  "vrMode runningWindow = False"
  "position runningWindow = (1, 2, 3)"
  "startTime runningWindow = 5"
  "uniformLambdas runningWindow = [SetGlobalTime, SetResolution, BindChannel 0, BindChannel 2]"
  by (simp_all add: runningWindow_def twoSlotsWindow_def newShadertoyWindow_def)

theorem build_failure_keeps_program_witness:
  "buildLog (demoEnv fourSamplers) runningWindow brokenSource = Some ''0(1) : error C0000'' \<and>
   \<not> succeeded (setShaderSourceInternal (demoEnv fourSamplers) 20 runningWindow brokenSource) \<and>
   signalsOf (setShaderSourceInternal (demoEnv fourSamplers) 20 runningWindow brokenSource) =
     Some [compileError ''0(1) : error C0000''] \<and>
   programOf (setShaderSourceInternal (demoEnv fourSamplers) 20 runningWindow brokenSource) =
     Some (Some \<lparr>activeUniforms = fourSamplers\<rparr>)"
proof -
  from build_failure_keeps_program[OF broken_buildLog, of 20] obtain s' where
    "setShaderSourceInternal (demoEnv fourSamplers) 20 runningWindow brokenSource = Inr (s', False)"
    "signals s' = signals runningWindow @ [compileError ''0(1) : error C0000'']"
    "shadertoyProgram s' = shadertoyProgram runningWindow"
    by blast
  then show ?thesis
    by (simp add: broken_buildLog succeeded_def signalsOf_def programOf_def builtState_def
        running_fields)
qed

text \<open>
  C4, as the spec has it: every failing build reports a non-empty diagnostic.  The
  diagnostic is the log of the \<open>ProgramBuildError\<close> and nothing else; when the compiler
  rejects the source with an empty log, the diagnostic is the empty string.
\<close>

theorem empty_log_reported:
  "buildLog silentEnv runningWindow goodSource = Some [] \<and>
   \<not> succeeded (setShaderSourceInternal silentEnv 20 runningWindow goodSource) \<and>
   signalsOf (setShaderSourceInternal silentEnv 20 runningWindow goodSource) =
     Some [compileError []]"
proof -
  from build_failure[OF silent_buildLog, of 20] obtain s' where
    "setShaderSourceInternal silentEnv 20 runningWindow goodSource = Inr (s', False)"
    "signals s' = signals runningWindow @ [compileError []]"
    by blast
  then show ?thesis
    by (simp add: silent_buildLog succeeded_def signalsOf_def builtState_def running_fields)
qed

theorem build_success_restarts_time_witness:
  "buildLog (demoEnv fourSamplers) runningWindow goodSource = None \<and>
   startTime runningWindow = 5 \<and>
   succeeded (setShaderSourceInternal (demoEnv fourSamplers) 20 runningWindow goodSource) \<and>
   startTimeOf (setShaderSourceInternal (demoEnv fourSamplers) 20 runningWindow goodSource) =
     Some 20"
proof -
  from build_success_restarts_time[OF good_buildLog, of 20 demoFrame 30] obtain s' where
    "setShaderSourceInternal (demoEnv fourSamplers) 20 runningWindow goodSource = Inr (s', True)"
    "startTime s' = 20"
    by blast
  then show ?thesis
    by (simp add: good_buildLog succeeded_def startTimeOf_def builtState_def running_fields)
qed


lemma broken_has_pragma: "contains brokenSource ''#pragma vr''"
  by (simp add: brokenSource_def)

lemma new_not_vertexReady: "\<not> vertexReady noVertexEnv newShadertoyWindow"
  by (simp add: vertexReady_def noVertexEnv_def newShadertoyWindow_def demoEnv_def)

lemma new_fields:
  "vrMode newShadertoyWindow = False"
  "shadertoyProgram newShadertoyWindow = None"
  by (simp_all add: newShadertoyWindow_def)

text \<open>
  C10, as the spec has it: \<open>vrMode\<close> is recomputed on every call.  The call that has to
  compile the vertex shader does so before it looks at the source; when that compilation
  fails, \<open>vrMode\<close> stays false although the source contains \<open>#pragma vr\<close>.
\<close>

theorem vertex_failure_skips_vrMode:
  "contains brokenSource ''#pragma vr'' \<and>
   \<not> succeeded (setShaderSourceInternal noVertexEnv 20 newShadertoyWindow brokenSource) \<and>
   vrModeOf (setShaderSourceInternal noVertexEnv 20 newShadertoyWindow brokenSource) = Some False"
proof -
  from build_vertex_fails[OF new_not_vertexReady, of 20 brokenSource]
  show ?thesis
    by (auto simp: broken_has_pragma succeeded_def vrModeOf_def builtState_def new_fields)
qed

theorem build_resets_position_and_mode_witness:
  "vertexReady (demoEnv fourSamplers) runningWindow \<and>
   position runningWindow = (1, 2, 3) \<and> vrMode runningWindow = False \<and>
   \<not> succeeded (setShaderSourceInternal (demoEnv fourSamplers) 20 runningWindow brokenSource) \<and>
   positionOf (setShaderSourceInternal (demoEnv fourSamplers) 20 runningWindow brokenSource) =
     Some (0, 0, 0) \<and>
   vrModeOf (setShaderSourceInternal (demoEnv fourSamplers) 20 runningWindow brokenSource) =
     Some True \<and>
   programOf (setShaderSourceInternal (demoEnv fourSamplers) 20 runningWindow brokenSource) =
     Some (shadertoyProgram runningWindow) \<and>
   \<not> vertexReady noVertexEnv newShadertoyWindow \<and>
   positionOf (setShaderSourceInternal noVertexEnv 20 newShadertoyWindow brokenSource) =
     Some (0, 0, 0)"
proof -
  have nok: "\<not> succeeded (setShaderSourceInternal (demoEnv fourSamplers) 20 runningWindow brokenSource)"
    using build_failure[OF broken_buildLog, of 20] by (auto simp: succeeded_def)
  from build_resets_position_and_mode[of "demoEnv fourSamplers" 20 runningWindow brokenSource]
  obtain s' ok where
    r: "setShaderSourceInternal (demoEnv fourSamplers) 20 runningWindow brokenSource = Inr (s', ok)"
    and p: "position s' = (0, 0, 0)"
    and v: "vertexReady (demoEnv fourSamplers) runningWindow \<longrightarrow>
            vrMode s' = contains brokenSource ''#pragma vr''"
    and k: "\<not> ok \<longrightarrow> shadertoyProgram s' = shadertoyProgram runningWindow"
    by blast
  from nok r have "\<not> ok" by (simp add: succeeded_def)
  with r p v k running_vertexReady broken_has_pragma have first:
    "positionOf (setShaderSourceInternal (demoEnv fourSamplers) 20 runningWindow brokenSource) =
       Some (0, 0, 0) \<and>
     vrModeOf (setShaderSourceInternal (demoEnv fourSamplers) 20 runningWindow brokenSource) =
       Some True \<and>
     programOf (setShaderSourceInternal (demoEnv fourSamplers) 20 runningWindow brokenSource) =
       Some (shadertoyProgram runningWindow)"
    by (simp add: positionOf_def vrModeOf_def programOf_def builtState_def)
  from build_resets_position_and_mode[of noVertexEnv 20 newShadertoyWindow brokenSource]
  have second:
    "positionOf (setShaderSourceInternal noVertexEnv 20 newShadertoyWindow brokenSource) =
       Some (0, 0, 0)"
    by (auto simp: positionOf_def builtState_def)
  from nok first second running_vertexReady new_not_vertexReady show ?thesis
    by (simp add: running_fields)
qed

section \<open>The UI texture hand-off\<close>

lemma consumeUiTexture_fields:
  "uiVisible (fst (consumeUiTexture s)) = uiVisible s"
  "uiTexture (fst (consumeUiTexture s)) = 0"
  "fst (snd (consumeUiTexture s)) = uiTexture s"
  by (simp_all add: consumeUiTexture_def exchangeUiTexture_def Let_def)

lemma perFrameRender_fields:
  "uiVisible (fst (perFrameRender wait s)) = uiVisible s"
  "uiTexture (fst (perFrameRender wait s)) = (if uiVisible s then 0 else uiTexture s)"
  "consumed (snd (perFrameRender wait s)) = (if uiVisible s then Some (uiTexture s) else None)"
  using consumeUiTexture_fields[of s]
  by (auto simp: perFrameRender_def Let_def split: prod.splits)

lemma step_fields:
  "uiVisible (fst (step s a)) = uiVisible s"
  "uiTexture (fst (step s a)) =
     (case a of Publish h \<Rightarrow> h | Render wait \<Rightarrow> if uiVisible s then 0 else uiTexture s)"
  "consumedHandle (snd (step s a)) =
     (case a of Publish h \<Rightarrow> None
      | Render wait \<Rightarrow> if uiVisible s then Some (uiTexture s) else None)"
  using perFrameRender_fields[of _ s]
  by (cases a; simp add: exchangeUiTexture_def split: prod.splits; metis fst_conv snd_conv)+


lemma run_Cons:
  "fst (run s (a # xs)) = fst (run (fst (step s a)) xs)"
  "snd (run s (a # xs)) = snd (step s a) # snd (run (fst (step s a)) xs)"
  by (simp_all del: step.simps split: prod.splits)

lemma run_Nil: "fst (run s []) = s" "snd (run s []) = []"
  by simp_all

lemma run_append:
  "fst (run s (xs @ ys)) = fst (run (fst (run s xs)) ys)"
  "snd (run s (xs @ ys)) = snd (run s xs) @ snd (run (fst (run s xs)) ys)"
  by (induction xs arbitrary: s) (simp_all only: run_Cons run_Nil append.simps)

lemma length_run: "length (snd (run s xs)) = length xs"
  by (induction xs arbitrary: s) (simp_all only: run_Cons run_Nil list.size)

lemma run_snoc:
  "fst (run s (xs @ [a])) = fst (step (fst (run s xs)) a)"
  "snd (run s (xs @ [a])) = snd (run s xs) @ [snd (step (fst (run s xs)) a)]"
  by (simp_all only: run_append run_Cons run_Nil)

lemma run_take_Suc:
  assumes "j < length xs"
  shows "fst (run s (take (Suc j) xs)) = fst (step (fst (run s (take j xs))) (xs ! j))"
  using assms by (simp only: take_Suc_conv_app_nth run_snoc)

lemma run_nth:
  assumes "j < length xs"
  shows "snd (run s xs) ! j = snd (step (fst (run s (take j xs))) (xs ! j))"
proof -
  have "xs = take j xs @ xs ! j # drop (Suc j) xs"
    using assms by (simp add: id_take_nth_drop)
  then have "snd (run s xs) = snd (run s (take j xs @ xs ! j # drop (Suc j) xs))"
    by simp
  also have "\<dots> = snd (run s (take j xs)) @
      snd (step (fst (run s (take j xs))) (xs ! j)) #
      snd (run (fst (step (fst (run s (take j xs))) (xs ! j))) (drop (Suc j) xs))"
    by (simp only: run_append run_Cons)
  also have "\<dots> ! j = snd (step (fst (run s (take j xs))) (xs ! j))"
    using assms length_run[of s "take j xs"] by (simp add: nth_append del: step.simps)
  finally show ?thesis .
qed

lemma run_uiVisible: "uiVisible (fst (run s xs)) = uiVisible s"
  by (induction xs arbitrary: s) (simp_all only: run_Cons run_Nil step_fields)

lemma run_cell:
  "uiTexture (fst (run s xs)) = uiTexture s \<or> uiTexture (fst (run s xs)) = 0 \<or>
   Publish (uiTexture (fst (run s xs))) \<in> set xs"
proof (induction xs rule: rev_induct)
  case Nil
  then show ?case by simp
next
  case (snoc a xs)
  show ?case
  proof (cases a)
    case (Publish h)
    then show ?thesis by (simp add: run_snoc step_fields del: step.simps)
  next
    case (Render wait)
    with snoc show ?thesis by (auto simp: run_snoc step_fields simp del: step.simps)
  qed
qed

lemma in_take_nth: "x \<in> set (take j xs) \<Longrightarrow> \<exists>i<j. i < length xs \<and> xs ! i = x"
  by (auto simp: in_set_conv_nth)

lemma in_mid_nth:
  assumes "x \<in> set (drop (Suc i) (take j xs))"
  shows "\<exists>k. i < k \<and> k < j \<and> xs ! k = x"
proof -
  from assms obtain m where m: "m < length (drop (Suc i) (take j xs))"
    and x: "drop (Suc i) (take j xs) ! m = x"
    by (auto simp: in_set_conv_nth)
  from m have b: "Suc i + m < j" "Suc i + m < length xs" by auto
  with x have "xs ! (Suc i + m) = x" by simp
  with b show ?thesis by (intro exI[of _ "Suc i + m"]) simp
qed


lemma consumed_step:
  assumes "consumedHandle (snd (step s a)) = Some h"
  shows "uiVisible s \<and> h = uiTexture s \<and> uiTexture (fst (step s a)) = 0"
  using assms by (cases a) (simp_all add: step_fields del: step.simps split: if_splits)

lemma consume_empty:
  assumes v: "uiVisible s" and e: "uiTexture s = 0" and r: "perFrameRender wait s = (s', r)"
  shows "consumed r = Some 0 \<and> lastUiTexture s' = lastUiTexture s \<and>
         drawn r = (if lastUiTexture s = 0 then None else Some (lastUiTexture s))"
proof -
  from e have c: "consumeUiTexture s =
      ((if lastUiTexture s \<noteq> 0
        then s\<lparr>uiTexture := 0, lastUiSync := nextSync s, nextSync := Suc (nextSync s)\<rparr>
        else s\<lparr>uiTexture := 0\<rparr>), 0, lastUiTexture s)"
    by (simp add: consumeUiTexture_def exchangeUiTexture_def Let_def)
  from r v show ?thesis
    by (auto simp: perFrameRender_def c Let_def split: prod.splits if_splits)
qed

lemma perFrameRender_last:
  "lastUiTexture (fst (perFrameRender wait s)) =
     (if uiVisible s \<and> uiTexture s \<noteq> 0 then uiTexture s else lastUiTexture s)"
  "drawn (snd (perFrameRender wait s)) =
     (if uiVisible s
      then (if uiTexture s \<noteq> 0 then Some (uiTexture s)
            else if lastUiTexture s \<noteq> 0 then Some (lastUiTexture s) else None)
      else None)"
  by (simp_all add: perFrameRender_def consumeUiTexture_def exchangeUiTexture_def Let_def
      split: prod.splits)

lemma step_last:
  "lastUiTexture (fst (step s a)) =
     (case consumedHandle (snd (step s a)) of
        None \<Rightarrow> lastUiTexture s
      | Some h \<Rightarrow> if h \<noteq> 0 then h else lastUiTexture s)"
proof (cases a)
  case (Publish h)
  then show ?thesis by (simp add: exchangeUiTexture_def)
next
  case (Render wait)
  have "step s (Render wait) =
         (fst (perFrameRender wait s), Frame (snd (perFrameRender wait s)))"
    by (simp add: split_beta)
  with Render show ?thesis
    by (simp only: fst_conv snd_conv consumedHandle.simps perFrameRender_fields perFrameRender_last)
       simp
qed

lemma step_drawn:
  assumes "snd (step s a) = Frame r" and "consumed r = Some h"
  shows "drawn r =
     (if h \<noteq> 0 then Some h else if lastUiTexture s \<noteq> 0 then Some (lastUiTexture s) else None)"
proof (cases a)
  case (Publish h')
  with assms show ?thesis by (simp add: exchangeUiTexture_def)
next
  case (Render wait)
  have "step s (Render wait) =
         (fst (perFrameRender wait s), Frame (snd (perFrameRender wait s)))"
    by (simp add: split_beta)
  with Render assms(1) have r: "r = snd (perFrameRender wait s)" by simp
  from assms(2) show ?thesis
    unfolding r perFrameRender_fields perFrameRender_last by (simp split: if_splits)
qed

lemma retained_handle:
  assumes i: "i < j" and jl: "j \<le> length steps" and h: "h \<noteq> 0"
      and c: "consumedHandle (snd (run s steps) ! i) = Some h"
      and q: "\<forall>k h'. i < k \<and> k < j \<and> consumedHandle (snd (run s steps) ! k) = Some h' \<longrightarrow> h' = 0"
  shows "lastUiTexture (fst (run s (take j steps))) = h"
  using i jl q
proof (induction j)
  case 0
  then show ?case by simp
next
  case (Suc j)
  then have jl: "j < length steps" by simp
  let ?sj = "fst (run s (take j steps))"
  have o: "snd (run s steps) ! j = snd (step ?sj (steps ! j))" by (rule run_nth[OF jl])
  have n: "fst (run s (take (Suc j) steps)) = fst (step ?sj (steps ! j))"
    by (rule run_take_Suc[OF jl])
  show ?case
  proof (cases "i = j")
    case True
    with c o have "consumedHandle (snd (step ?sj (steps ! j))) = Some h" by simp
    with h show ?thesis unfolding n step_last[of ?sj "steps ! j"] by simp
  next
    case False
    with Suc.prems have ij: "i < j" by simp
    from Suc.prems(3) have
      "\<forall>k h'. i < k \<and> k < j \<and> consumedHandle (snd (run s steps) ! k) = Some h' \<longrightarrow> h' = 0"
      using less_SucI by blast
    with Suc.IH ij jl have l: "lastUiTexture ?sj = h" by simp
    from Suc.prems(3) ij
    have "\<forall>h'. consumedHandle (snd (run s steps) ! j) = Some h' \<longrightarrow> h' = 0"
      using lessI by blast
    then have "\<forall>h'. consumedHandle (snd (step ?sj (steps ! j))) = Some h' \<longrightarrow> h' = 0"
      unfolding o .
    then show ?thesis unfolding n step_last[of ?sj "steps ! j"] l
      by (simp split: option.splits)
  qed
qed

text \<open>
  C1: start with an empty hand-off cell and let the UI side publish and the render thread
  run frames in any order.  A frame that takes a handle out of the cell takes zero or a
  handle that was published before; two frames never take the same non-zero handle
  unless it was published again in between.  A frame that takes a non-zero handle draws
  it.  A frame that finds the cell empty draws the handle that the last frame before it
  with a non-zero handle took, and that handle is still the retained one after the
  frame; in the first step, where no frame has run, it leaves \<open>lastUiTexture\<close> as it is and
  draws that texture.  Each exchange is one atomic step, so an interleaving of the two
  threads is a sequence of such steps.
\<close>

theorem handoff_consume:
  assumes init: "uiTexture s = 0"
  shows "(\<forall>j h. j < length steps \<and> consumedHandle (snd (run s steps) ! j) = Some h \<longrightarrow>
            h = 0 \<or> (\<exists>i<j. steps ! i = Publish h)) \<and>
         (\<forall>i j h. i < j \<and> j < length steps \<and> h \<noteq> 0 \<and>
            consumedHandle (snd (run s steps) ! i) = Some h \<and>
            consumedHandle (snd (run s steps) ! j) = Some h \<longrightarrow>
            (\<exists>k. i < k \<and> k < j \<and> steps ! k = Publish h)) \<and>
         (\<forall>wait s' r. uiVisible s \<and> perFrameRender wait s = (s', r) \<longrightarrow>
            consumed r = Some 0 \<and> lastUiTexture s' = lastUiTexture s \<and>
            drawn r = (if lastUiTexture s = 0 then None else Some (lastUiTexture s))) \<and>
         (\<forall>j r h. j < length steps \<and> snd (run s steps) ! j = Frame r \<and>
            consumed r = Some h \<and> h \<noteq> 0 \<longrightarrow>
            drawn r = Some h \<and> lastUiTexture (fst (run s (take (Suc j) steps))) = h) \<and>
         (\<forall>i j r h. i < j \<and> j < length steps \<and> h \<noteq> 0 \<and>
            consumedHandle (snd (run s steps) ! i) = Some h \<and>
            (\<forall>k h'. i < k \<and> k < j \<and> consumedHandle (snd (run s steps) ! k) = Some h' \<longrightarrow>
               h' = 0) \<and>
            snd (run s steps) ! j = Frame r \<and> consumed r = Some 0 \<longrightarrow>
            drawn r = Some h \<and> lastUiTexture (fst (run s (take (Suc j) steps))) = h)"
proof (intro conjI allI impI)
  fix j h
  assume a: "j < length steps \<and> consumedHandle (snd (run s steps) ! j) = Some h"
  then have jl: "j < length steps" by simp
  from a have "consumedHandle (snd (step (fst (run s (take j steps))) (steps ! j))) = Some h"
    unfolding run_nth[OF jl] by simp
  from consumed_step[OF this] have h: "h = uiTexture (fst (run s (take j steps)))" by simp
  from run_cell[of s "take j steps"] init h
  have "h = 0 \<or> Publish h \<in> set (take j steps)" by auto
  then show "h = 0 \<or> (\<exists>i<j. steps ! i = Publish h)"
    by (auto dest: in_take_nth)
next
  fix i j h
  assume a: "i < j \<and> j < length steps \<and> h \<noteq> 0 \<and>
            consumedHandle (snd (run s steps) ! i) = Some h \<and>
            consumedHandle (snd (run s steps) ! j) = Some h"
  then have i: "i < length steps" and ij: "Suc i \<le> j" and jl: "j < length steps"
    by simp_all
  let ?si = "fst (run s (take (Suc i) steps))"
  from a have "consumedHandle (snd (step (fst (run s (take i steps))) (steps ! i))) = Some h"
    unfolding run_nth[OF i] by simp
  from consumed_step[OF this] run_take_Suc[OF i, of s]
  have zero: "uiTexture ?si = 0" by simp
  from a have "consumedHandle (snd (step (fst (run s (take j steps))) (steps ! j))) = Some h"
    unfolding run_nth[OF jl] by simp
  from consumed_step[OF this] have h: "h = uiTexture (fst (run s (take j steps)))" by simp
  have "take j steps = take (Suc i) steps @ drop (Suc i) (take j steps)"
    using ij by (metis append_take_drop_id min.absorb1 take_take)
  then have "fst (run s (take j steps)) = fst (run ?si (drop (Suc i) (take j steps)))"
    by (metis run_append(1))
  with run_cell[of ?si "drop (Suc i) (take j steps)"] zero h a
  have "Publish h \<in> set (drop (Suc i) (take j steps))" by auto
  then show "\<exists>k. i < k \<and> k < j \<and> steps ! k = Publish h"
    by (rule in_mid_nth)
next
  fix wait s' r
  assume "uiVisible s \<and> perFrameRender wait s = (s', r)"
  with consume_empty[of s wait s' r] init
  show "consumed r = Some 0" "lastUiTexture s' = lastUiTexture s"
    "drawn r = (if lastUiTexture s = 0 then None else Some (lastUiTexture s))"
    by simp_all
next
  fix j r h
  assume a: "j < length steps \<and> snd (run s steps) ! j = Frame r \<and>
             consumed r = Some h \<and> h \<noteq> 0"
  then have jl: "j < length steps" by simp
  let ?sj = "fst (run s (take j steps))"
  from a have o: "snd (step ?sj (steps ! j)) = Frame r"
    unfolding run_nth[OF jl, symmetric] by simp
  from step_drawn[OF o, of h] a show "drawn r = Some h" by simp
  from a show "lastUiTexture (fst (run s (take (Suc j) steps))) = h"
    unfolding run_take_Suc[OF jl] step_last[of ?sj "steps ! j"] o by simp
next
  fix i j r h
  assume a: "i < j \<and> j < length steps \<and> h \<noteq> 0 \<and>
            consumedHandle (snd (run s steps) ! i) = Some h \<and>
            (\<forall>k h'. i < k \<and> k < j \<and> consumedHandle (snd (run s steps) ! k) = Some h' \<longrightarrow>
               h' = 0) \<and>
            snd (run s steps) ! j = Frame r \<and> consumed r = Some 0"
  then have jl: "j < length steps" by simp
  let ?sj = "fst (run s (take j steps))"
  from a have p: "i < j" "j \<le> length steps" "h \<noteq> 0"
    "consumedHandle (snd (run s steps) ! i) = Some h"
    "\<forall>k h'. i < k \<and> k < j \<and> consumedHandle (snd (run s steps) ! k) = Some h' \<longrightarrow> h' = 0"
    by simp_all
  have l: "lastUiTexture ?sj = h" by (rule retained_handle[OF p])
  from a have o: "snd (step ?sj (steps ! j)) = Frame r"
    unfolding run_nth[OF jl, symmetric] by simp
  from step_drawn[OF o, of 0] a l show "drawn r = Some h" by simp
  from a l show "lastUiTexture (fst (run s (take (Suc j) steps))) = h"
    unfolding run_take_Suc[OF jl] step_last[of ?sj "steps ! j"] o by simp
qed

lemma afterFirstFrame_eq:
  "afterFirstFrame =
     visibleWindow\<lparr>lastUiTexture := 5, lastUiSync := 1, nextSync := 2\<rparr>"
  by (simp add: afterFirstFrame_def visibleWindow_def newShadertoyWindow_def
      perFrameRender_def consumeUiTexture_def exchangeUiTexture_def Let_def)

lemma handoff_run:
  "map consumedHandle (snd (run visibleWindow handoffSteps)) =
     [None, Some 5, Some 0, None, Some 5]"
  by (simp add: handoffSteps_def visibleWindow_def newShadertoyWindow_def
      perFrameRender_def consumeUiTexture_def exchangeUiTexture_def Let_def allSignaled_def)

lemma handoff_frames:
  "snd (run visibleWindow handoffSteps) =
     [Returned 0,
      Frame \<lparr>consumed = Some 5, drawn = Some 5, deletable = []\<rparr>,
      Frame \<lparr>consumed = Some 0, drawn = Some 5, deletable = []\<rparr>,
      Returned 0,
      Frame \<lparr>consumed = Some 5, drawn = Some 5, deletable = [5]\<rparr>]"
  by (simp add: handoffSteps_def visibleWindow_def newShadertoyWindow_def
      perFrameRender_def consumeUiTexture_def exchangeUiTexture_def Let_def allSignaled_def)

lemma second_frame:
  "perFrameRender allSignaled afterFirstFrame =
     (afterFirstFrame\<lparr>lastUiSync := 2, nextSync := 3\<rparr>,
      \<lparr>consumed = Some 0, drawn = Some 5, deletable = []\<rparr>)"
  by (simp add: afterFirstFrame_eq visibleWindow_def newShadertoyWindow_def
      perFrameRender_def consumeUiTexture_def exchangeUiTexture_def Let_def)

theorem handoff_consume_witness:
  "uiTexture visibleWindow = 0 \<and>
   map consumedHandle (snd (run visibleWindow handoffSteps)) =
     [None, Some 5, Some 0, None, Some 5] \<and>
   handoffSteps ! 0 = Publish 5 \<and> handoffSteps ! 3 = Publish 5 \<and>
   uiTexture afterFirstFrame = 0 \<and> uiVisible afterFirstFrame \<and>
   lastUiTexture afterFirstFrame = 5 \<and>
   consumed (snd (perFrameRender allSignaled afterFirstFrame)) = Some 0 \<and>
   drawn (snd (perFrameRender allSignaled afterFirstFrame)) = Some 5 \<and>
   lastUiTexture (fst (perFrameRender allSignaled afterFirstFrame)) = 5 \<and>
   snd (run visibleWindow handoffSteps) ! 1 =
     Frame \<lparr>consumed = Some 5, drawn = Some 5, deletable = []\<rparr> \<and>
   lastUiTexture (fst (run visibleWindow (take 2 handoffSteps))) = 5 \<and>
   snd (run visibleWindow handoffSteps) ! 2 =
     Frame \<lparr>consumed = Some 0, drawn = Some 5, deletable = []\<rparr> \<and>
   lastUiTexture (fst (run visibleWindow (take 3 handoffSteps))) = 5"
proof -
  have z: "uiTexture visibleWindow = 0"
    by (simp add: visibleWindow_def newShadertoyWindow_def)
  have len: "length handoffSteps = 5" by (simp add: handoffSteps_def)
  have f1: "snd (run visibleWindow handoffSteps) ! 1 =
            Frame \<lparr>consumed = Some 5, drawn = Some 5, deletable = []\<rparr>"
    and f2: "snd (run visibleWindow handoffSteps) ! 2 =
            Frame \<lparr>consumed = Some 0, drawn = Some 5, deletable = []\<rparr>"
    and f4: "snd (run visibleWindow handoffSteps) ! 4 =
            Frame \<lparr>consumed = Some 5, drawn = Some 5, deletable = [5]\<rparr>"
    by (simp_all only: handoff_frames) simp_all
  have o1: "consumedHandle (snd (run visibleWindow handoffSteps) ! 1) = Some 5"
    and o4: "consumedHandle (snd (run visibleWindow handoffSteps) ! 4) = Some 5"
    by (simp_all only: f1 f4) simp_all
  note w = handoff_consume[OF z, of handoffSteps]
  from w[THEN conjunct1, rule_format, of 1 5] o1 len
  have "(5::GLuint) = 0 \<or> (\<exists>i<1. handoffSteps ! i = Publish 5)" by simp
  then have p0: "handoffSteps ! 0 = Publish 5" by auto
  from w[THEN conjunct2, THEN conjunct1, rule_format, of 1 4 5] o1 o4 len
  have "\<exists>k. 1 < k \<and> k < 4 \<and> handoffSteps ! k = Publish 5" by simp
  then obtain k where k: "1 < k" "k < 4" "handoffSteps ! k = Publish 5" by blast
  then have "k = 2 \<or> k = 3" by auto
  with k(3) have p3: "handoffSteps ! 3 = Publish 5"
    by (auto simp: handoffSteps_def)
  have a: "uiTexture afterFirstFrame = 0" "uiVisible afterFirstFrame"
    "lastUiTexture afterFirstFrame = 5"
    by (simp_all add: afterFirstFrame_eq visibleWindow_def newShadertoyWindow_def)
  from handoff_consume[OF a(1), of "[]", THEN conjunct2, THEN conjunct2, THEN conjunct1,
         rule_format,
         of allSignaled "fst (perFrameRender allSignaled afterFirstFrame)"
            "snd (perFrameRender allSignaled afterFirstFrame)"] a(2,3)
  have e: "consumed (snd (perFrameRender allSignaled afterFirstFrame)) = Some 0 \<and>
        lastUiTexture (fst (perFrameRender allSignaled afterFirstFrame)) = 5 \<and>
        drawn (snd (perFrameRender allSignaled afterFirstFrame)) = Some 5"
    by simp
  have s2: "Suc 1 = 2" and s3: "Suc 2 = 3" by simp_all
  have "1 < length handoffSteps \<and>
        snd (run visibleWindow handoffSteps) ! 1 =
          Frame \<lparr>consumed = Some 5, drawn = Some 5, deletable = []\<rparr> \<and>
        consumed \<lparr>consumed = Some 5, drawn = Some 5, deletable = []\<rparr> = Some 5 \<and>
        (5::GLuint) \<noteq> 0"
    using len f1 by simp
  from w[THEN conjunct2, THEN conjunct2, THEN conjunct2, THEN conjunct1, rule_format, OF this]
  have l2: "lastUiTexture (fst (run visibleWindow (take 2 handoffSteps))) = 5"
    unfolding s2 by (rule conjunct2)
  have "(1::nat) < 2 \<and> 2 < length handoffSteps \<and> (5::GLuint) \<noteq> 0 \<and>
        consumedHandle (snd (run visibleWindow handoffSteps) ! 1) = Some 5 \<and>
        (\<forall>k h'. 1 < k \<and> k < 2 \<and>
           consumedHandle (snd (run visibleWindow handoffSteps) ! k) = Some h' \<longrightarrow> h' = 0) \<and>
        snd (run visibleWindow handoffSteps) ! 2 =
          Frame \<lparr>consumed = Some 0, drawn = Some 5, deletable = []\<rparr> \<and>
        consumed \<lparr>consumed = Some 0, drawn = Some 5, deletable = []\<rparr> = Some 0"
    using len f2 o1 by auto
  from w[THEN conjunct2, THEN conjunct2, THEN conjunct2, THEN conjunct2, rule_format, OF this]
  have l3: "lastUiTexture (fst (run visibleWindow (take 3 handoffSteps))) = 5"
    unfolding s3 by (rule conjunct2)
  from z handoff_run p0 p3 a e f1 l2 f2 l3 show ?thesis by (intro conjI) simp_all
qed

section \<open>The texture trash\<close>














lemma secondPublished_eq:
  "secondPublished =
     visibleWindow\<lparr>uiTexture := 2, lastUiTexture := 1, lastUiSync := 1, nextSync := 2\<rparr>"
  by (simp add: secondPublished_def visibleWindow_def newShadertoyWindow_def
      perFrameRender_def consumeUiTexture_def exchangeUiTexture_def Let_def noneSignaled_def)



lemma secondPublished_frame:
  "perFrameRender allSignaled secondPublished =
     (secondPublished\<lparr>uiTexture := 0, textureDeleteQueue := [1],
                      lastUiTexture := 2, lastUiSync := 2, nextSync := 3\<rparr>,
      \<lparr>consumed = Some 2, drawn = Some 2, deletable = [1]\<rparr>)"
  by (simp add: secondPublished_eq visibleWindow_def newShadertoyWindow_def
      perFrameRender_def consumeUiTexture_def exchangeUiTexture_def Let_def allSignaled_def)



section \<open>The resolution scale\<close>

lemma ilog2_bounds:
  assumes "0 < x"
  shows "2 powi (ilog2 x) \<le> x \<and> x < 2 powi (ilog2 x + 1)"
proof (cases "1 \<le> x")
  case True
  define n where "n = nat \<lfloor>x\<rfloor>"
  have n: "0 < n" using True by (simp add: n_def)
  from floorlog_bounds[OF n, of 2]
  have b: "2 ^ (floorlog 2 n - 1) \<le> n" "n < 2 ^ floorlog 2 n" by simp_all
  have fl: "0 < floorlog 2 n" using n by (simp add: floorlog_def)
  have "ilog2 x = int (floorlog 2 n - 1)" "ilog2 x + 1 = int (floorlog 2 n)"
    using fl True by (simp_all add: ilog2_def n_def)
  then have e: "(2::real) powi ilog2 x = 2 ^ (floorlog 2 n - 1)"
    "(2::real) powi (ilog2 x + 1) = 2 ^ floorlog 2 n"
    by (simp_all only: power_int_of_nat)
  have lo: "real n \<le> x" using True by (simp add: n_def)
  have hi: "x < real n + 1" using True by (simp add: n_def)
  have "(2::real) ^ (floorlog 2 n - 1) \<le> real n"
    using of_nat_mono[OF b(1), where 'a = real] by simp
  with lo have 1: "2 ^ (floorlog 2 n - 1) \<le> x" by linarith
  from b(2) have "n + 1 \<le> 2 ^ floorlog 2 n" by simp
  from of_nat_mono[OF this, where 'a = real] have "real n + 1 \<le> 2 ^ floorlog 2 n" by simp
  with hi have 2: "x < 2 ^ floorlog 2 n" by linarith
  from 1 2 show ?thesis unfolding e by simp
next
  case False
  define m where "m = nat (\<lceil>1 / x\<rceil> - 1)"
  from False assms have y: "1 < 1 / x" by simp
  then have c: "2 \<le> \<lceil>1 / x\<rceil>" by linarith
  then have m: "0 < m" by (simp add: m_def)
  from floorlog_bounds[OF m, of 2]
  have b: "2 ^ (floorlog 2 m - 1) \<le> m" "m < 2 ^ floorlog 2 m" by simp_all
  have fl: "0 < floorlog 2 m" using m by (simp add: floorlog_def)
  have "ilog2 x = - int (floorlog 2 m)" "ilog2 x + 1 = - int (floorlog 2 m - 1)"
    using False fl by (simp_all add: ilog2_def m_def)
  then have e: "(2::real) powi ilog2 x = 1 / 2 ^ floorlog 2 m"
    "(2::real) powi (ilog2 x + 1) = 1 / 2 ^ (floorlog 2 m - 1)"
    by (simp_all only: power_int_minus power_int_of_nat inverse_eq_divide)
  have lo: "real m < 1 / x" using c by (simp add: m_def; linarith)
  have hi: "1 / x \<le> real m + 1" using c by (simp add: m_def; linarith)
  have "(2::real) ^ (floorlog 2 m - 1) \<le> real m"
    using of_nat_mono[OF b(1), where 'a = real] by simp
  with lo have 1: "2 ^ (floorlog 2 m - 1) < 1 / x" by linarith
  from b(2) have "m + 1 \<le> 2 ^ floorlog 2 m" by simp
  from of_nat_mono[OF this, where 'a = real] have "real m + 1 \<le> 2 ^ floorlog 2 m" by simp
  with hi have 2: "1 / x \<le> 2 ^ floorlog 2 m" by linarith
  from 2 assms have 3: "1 / 2 ^ floorlog 2 m \<le> x"
    by (simp add: field_simps)
  from 1 assms have 4: "x < 1 / 2 ^ (floorlog 2 m - 1)"
    by (simp add: field_simps)
  from 3 4 show ?thesis unfolding e by simp
qed

lemma roundEven_nearest: "\<bar>of_int (roundEven x) - x\<bar> \<le> 1 / 2"
  by (simp add: roundEven_def Let_def; linarith)

lemma roundTo_nearest:
  assumes "roundTo p emin emax x = Finite r"
  shows "\<bar>r - x\<bar> \<le> 2 powi (max (ilog2 \<bar>x\<bar>) emin - int p + 1) / 2"
proof (cases "x = 0")
  case True
  with assms show ?thesis by (simp add: roundTo_def)
next
  case False
  define ulp :: real where "ulp = 2 powi (max (ilog2 \<bar>x\<bar>) emin - int p + 1)"
  define n where "n = roundEven (\<bar>x\<bar> / ulp)"
  have u: "0 < ulp" by (simp add: ulp_def)
  from assms False have r: "r = (if 0 < x then of_int n * ulp else - (of_int n * ulp))"
    by (simp add: roundTo_def Let_def ulp_def n_def split: if_splits)
  from roundEven_nearest[of "\<bar>x\<bar> / ulp"] have "\<bar>of_int n - \<bar>x\<bar> / ulp\<bar> \<le> 1 / 2"
    by (simp add: n_def)
  then have "\<bar>of_int n - \<bar>x\<bar> / ulp\<bar> * ulp \<le> 1 / 2 * ulp"
    using u by (intro mult_right_mono) simp_all
  then have "\<bar>(of_int n - \<bar>x\<bar> / ulp) * ulp\<bar> \<le> ulp / 2"
    using u by (simp add: abs_mult)
  then have d: "\<bar>of_int n * ulp - \<bar>x\<bar>\<bar> \<le> ulp / 2"
    using u by (simp add: left_diff_distrib)
  have "\<bar>r - x\<bar> = \<bar>of_int n * ulp - \<bar>x\<bar>\<bar>"
  proof (cases "0 < x")
    case True
    with r show ?thesis by simp
  next
    case False
    with r have "r - x = - (of_int n * ulp - \<bar>x\<bar>)" by simp
    then show ?thesis by (simp only: abs_minus_cancel)
  qed
  with d show ?thesis unfolding ulp_def[symmetric] by simp
qed

lemma toFloat_tenth: "toFloat (1 / 10) = Finite tenthf"
  by (simp add: toFloat_def roundTo_def ilog2_def compute_floorlog roundEven_def Let_def
      power_int_def power_one_over tenthf_def)

lemma tenthf_bounds: "1 / 10 < tenthf" "tenthf < 1"
  by (simp_all add: tenthf_def)

lemma clamp_finite:
  "std_max (Finite tenthf) (std_min (Finite 1) v) =
     Finite (case v of Finite p \<Rightarrow> max tenthf (min 1 p) | MinusInfinity \<Rightarrow> tenthf | _ \<Rightarrow> 1)"
  using tenthf_bounds by (cases v) (simp_all add: std_max_def std_min_def max_def min_def)

lemma clamp_range:
  "\<exists>r. std_max (Finite tenthf) (std_min (Finite 1) v) = Finite r \<and> tenthf \<le> r \<and> r \<le> 1 \<and>
       (\<forall>p. v = Finite p \<longrightarrow> r = max tenthf (min 1 p))"
  using tenthf_bounds unfolding clamp_finite by (cases v) (simp_all add: max_def min_def)

lemma onModifyTextureResolution_eq:
  assumes "std_max (Finite tenthf)
             (std_min (Finite 1) (doubleToFloat (doubleMul scale (Finite (texRes s))))) = Finite r"
  shows "onModifyTextureResolution s scale =
     (if r \<noteq> texRes s
      then s\<lparr>renderThreadTasks := renderThreadTasks s @ [TexResTask (Finite r)]\<rparr>
      else s)"
  using assms by (simp add: onModifyTextureResolution_def Let_def ieee_ne_def)

lemma resInvariant_modify:
  assumes "resInvariant s"
  shows "resInvariant (onModifyTextureResolution s scale)"
proof -
  from clamp_range[of "doubleToFloat (doubleMul scale (Finite (texRes s)))"]
  obtain r where c: "std_max (Finite tenthf)
        (std_min (Finite 1) (doubleToFloat (doubleMul scale (Finite (texRes s))))) = Finite r"
    and r: "tenthf \<le> r" "r \<le> 1"
    by blast
  from r tenthf_bounds have "scaleOk r" by (simp add: scaleOk_def)
  with assms show ?thesis
    by (simp add: onModifyTextureResolution_eq[OF c] resInvariant_def)
qed

lemma runTask_fold:
  "scaleOk (texRes s) \<Longrightarrow> list_all taskOk ts \<Longrightarrow>
   scaleOk (texRes (foldl runTask s ts)) \<and>
   renderThreadTasks (foldl runTask s ts) = renderThreadTasks s"
proof (induction ts arbitrary: s)
  case Nil
  then show ?case by simp
next
  case (Cons t ts)
  obtain v where t: "t = TexResTask v" by (cases t)
  with Cons.prems obtain r where v: "v = Finite r" by (cases v) simp_all
  from Cons t v show ?case by simp
qed

lemma resInvariant_run: "resInvariant s \<Longrightarrow> resInvariant (runRenderThreadTasks s)"
  using runTask_fold[of "s\<lparr>renderThreadTasks := []\<rparr>" "renderThreadTasks s"]
  by (simp add: resInvariant_def runRenderThreadTasks_def)

lemma resInvariant_step: "resInvariant s \<Longrightarrow> resInvariant (resStep s ev)"
  by (cases ev) (simp_all add: resInvariant_modify resInvariant_run)

lemma resInvariant_steps: "resInvariant s \<Longrightarrow> resInvariant (foldl resStep s evs)"
  by (induction evs arbitrary: s) (simp_all add: resInvariant_step)

text \<open>
  C9: the handler multiplies the requested factor, a \<open>double\<close>, by the current \<open>texRes\<close>,
  converts the product to \<open>float\<close> and clamps it between \<open>0.1f\<close> and \<open>1.0f\<close>.  Whatever the
  factor is, a NaN and the infinities included, the clamped value is a finite number in
  the interval from 0.1 to 1; for a finite converted product it is the product clamped.
  The handler queues the assignment of that value to \<open>texRes\<close> only when it differs from
  the current \<open>texRes\<close>, and changes nothing else.  From a scale in the interval and an
  empty task queue, \<open>texRes\<close> stays in the interval under every sequence of such events
  and runs of the queued tasks.
\<close>

theorem texRes_stays_in_range:
  "(\<exists>r. std_max (Finite tenthf)
          (std_min (Finite 1) (doubleToFloat (doubleMul scale (Finite (texRes s))))) = Finite r \<and>
        1 / 10 \<le> r \<and> r \<le> 1 \<and>
        (\<forall>p. doubleToFloat (doubleMul scale (Finite (texRes s))) = Finite p \<longrightarrow>
             r = max tenthf (min 1 p)) \<and>
        onModifyTextureResolution s scale =
          (if r \<noteq> texRes s
           then s\<lparr>renderThreadTasks := renderThreadTasks s @ [TexResTask (Finite r)]\<rparr>
           else s)) \<and>
   (\<forall>c. scale = Finite c \<longrightarrow>
        doubleToFloat (doubleMul scale (Finite (texRes s))) =
          doubleToFloat (toDouble (c * texRes s))) \<and>
   (1 / 10 \<le> texRes s \<and> texRes s \<le> 1 \<and> renderThreadTasks s = [] \<longrightarrow>
      1 / 10 \<le> texRes (foldl resStep s evs) \<and> texRes (foldl resStep s evs) \<le> 1)"
proof (intro conjI impI allI)
  from clamp_range[of "doubleToFloat (doubleMul scale (Finite (texRes s)))"]
  obtain r where c: "std_max (Finite tenthf)
        (std_min (Finite 1) (doubleToFloat (doubleMul scale (Finite (texRes s))))) = Finite r"
    and r: "tenthf \<le> r" "r \<le> 1"
    and p: "\<forall>p. doubleToFloat (doubleMul scale (Finite (texRes s))) = Finite p \<longrightarrow>
                r = max tenthf (min 1 p)"
    by blast
  from r tenthf_bounds have "1 / 10 \<le> r" by simp
  with c r p onModifyTextureResolution_eq[OF c]
  show "\<exists>r. std_max (Finite tenthf)
          (std_min (Finite 1) (doubleToFloat (doubleMul scale (Finite (texRes s))))) = Finite r \<and>
        1 / 10 \<le> r \<and> r \<le> 1 \<and>
        (\<forall>p. doubleToFloat (doubleMul scale (Finite (texRes s))) = Finite p \<longrightarrow>
             r = max tenthf (min 1 p)) \<and>
        onModifyTextureResolution s scale =
          (if r \<noteq> texRes s
           then s\<lparr>renderThreadTasks := renderThreadTasks s @ [TexResTask (Finite r)]\<rparr>
           else s)"
    by blast
next
  fix c
  assume "scale = Finite c"
  then show "doubleToFloat (doubleMul scale (Finite (texRes s))) =
             doubleToFloat (toDouble (c * texRes s))"
    by simp
next
  assume "1 / 10 \<le> texRes s \<and> texRes s \<le> 1 \<and> renderThreadTasks s = []"
  then have "resInvariant s" by (simp add: resInvariant_def scaleOk_def)
  then have "resInvariant (foldl resStep s evs)" by (rule resInvariant_steps)
  then show "1 / 10 \<le> texRes (foldl resStep s evs)" "texRes (foldl resStep s evs) \<le> 1"
    by (simp_all add: resInvariant_def scaleOk_def)
qed

lemma new_texRes: "texRes newShadertoyWindow = 1" "renderThreadTasks newShadertoyWindow = []"
  by (simp_all add: newShadertoyWindow_def)

lemma exact_values:
  "toDouble (1 / 2) = Finite (1 / 2)" "toFloat (1 / 2) = Finite (1 / 2)"
  "toDouble (1 / 4) = Finite (1 / 4)" "toFloat (1 / 4) = Finite (1 / 4)"
  "toDouble (1 / 128) = Finite (1 / 128)" "toFloat (1 / 128) = Finite (1 / 128)"
  by (simp_all add: toDouble_def toFloat_def roundTo_def ilog2_def compute_floorlog roundEven_def
      Let_def power_int_def power_one_over)

lemma just_above_product:
  "doubleMul justAboveOne (Finite (1 / 2)) = Finite (1 / 2 + 1 / 2 ^ 27)"
  "doubleToFloat (Finite (1 / 2 + 1 / 2 ^ 27)) = Finite (1 / 2)"
  by (simp_all add: justAboveOne_def toDouble_def toFloat_def roundTo_def ilog2_def
      compute_floorlog roundEven_def Let_def power_int_def power_one_over)

lemma halve_twice:
  "texRes (foldl resStep newShadertoyWindow
      [ModifyTextureResolution (Finite (1 / 2)), RunTasks,
       ModifyTextureResolution (Finite (1 / 2)), RunTasks]) = 1 / 4"
  by (simp add: onModifyTextureResolution_def Let_def runRenderThreadTasks_def new_texRes
      exact_values std_max_def std_min_def tenthf_def ieee_ne_def)

lemma floor_clamp:
  "texRes (foldl resStep newShadertoyWindow
      [ModifyTextureResolution (Finite (1 / 128)), RunTasks]) = tenthf"
  by (simp add: onModifyTextureResolution_def Let_def runRenderThreadTasks_def new_texRes
      exact_values std_max_def std_min_def ieee_ne_def tenthf_def)

text \<open>
  A factor that moves the product by less than half the spacing of \<open>float\<close> at one half
  queues nothing: the converted product is the current \<open>texRes\<close>.  A NaN factor sets the
  scale to 1, because \<open>std::min(1.0f, newRes)\<close> returns its first argument when the
  comparison fails.
\<close>

lemma small_change_not_queued:
  "onModifyTextureResolution halfResWindow justAboveOne = halfResWindow"
proof -
  have t: "texRes halfResWindow = 1 / 2" by (simp add: halfResWindow_def)
  have n: "doubleToFloat (doubleMul justAboveOne (Finite (texRes halfResWindow))) = Finite (1 / 2)"
    by (simp only: t just_above_product)
  have "std_max (Finite tenthf) (std_min (Finite 1) (Finite (1 / 2))) = Finite (1 / 2)"
    by (simp add: std_max_def std_min_def tenthf_def)
  with n have "std_max (Finite tenthf) (std_min (Finite 1)
      (doubleToFloat (doubleMul justAboveOne (Finite (texRes halfResWindow))))) = Finite (1 / 2)"
    by (simp only:)
  from onModifyTextureResolution_eq[OF this] t show ?thesis by (simp only: if_False simp_thms)
qed

lemma nan_factor:
  "texRes (foldl resStep halfResWindow [ModifyTextureResolution NaN, RunTasks]) = 1"
proof -
  have t: "texRes halfResWindow = 1 / 2" "renderThreadTasks halfResWindow = []"
    by (simp_all add: halfResWindow_def newShadertoyWindow_def)
  show ?thesis
    by (simp add: onModifyTextureResolution_def Let_def runRenderThreadTasks_def t
        std_max_def std_min_def tenthf_def ieee_ne_def)
qed

theorem texRes_stays_in_range_witness:
  "1 / 10 \<le> texRes newShadertoyWindow \<and> texRes newShadertoyWindow \<le> 1 \<and>
   renderThreadTasks newShadertoyWindow = [] \<and>
   doubleToFloat (doubleMul (Finite (1 / 2)) (Finite (texRes newShadertoyWindow))) =
     Finite (1 / 2) \<and>
   onModifyTextureResolution newShadertoyWindow (Finite (1 / 2)) =
     newShadertoyWindow\<lparr>renderThreadTasks := [TexResTask (Finite (1 / 2))]\<rparr> \<and>
   texRes (foldl resStep newShadertoyWindow
      [ModifyTextureResolution (Finite (1 / 2)), RunTasks,
       ModifyTextureResolution (Finite (1 / 2)), RunTasks]) = 1 / 4 \<and>
   1 / 10 \<le> (1 / 4 :: real) \<and>
   texRes (foldl resStep newShadertoyWindow
      [ModifyTextureResolution (Finite (1 / 128)), RunTasks]) = tenthf"
proof -
  have h: "1 / 10 \<le> texRes newShadertoyWindow \<and> texRes newShadertoyWindow \<le> 1 \<and>
           renderThreadTasks newShadertoyWindow = []"
    by (simp add: new_texRes)
  have p: "doubleToFloat (doubleMul (Finite (1 / 2)) (Finite (texRes newShadertoyWindow))) =
           Finite (1 / 2)"
    by (simp add: new_texRes exact_values)
  note t = texRes_stays_in_range[of "Finite (1 / 2)" newShadertoyWindow
         "[ModifyTextureResolution (Finite (1 / 2)), RunTasks,
           ModifyTextureResolution (Finite (1 / 2)), RunTasks]"]
  from t obtain r where
    r: "\<forall>p. doubleToFloat (doubleMul (Finite (1 / 2)) (Finite (texRes newShadertoyWindow))) =
             Finite p \<longrightarrow> r = max tenthf (min 1 p)"
    and m: "onModifyTextureResolution newShadertoyWindow (Finite (1 / 2)) =
          (if r \<noteq> texRes newShadertoyWindow
           then newShadertoyWindow\<lparr>renderThreadTasks :=
                  renderThreadTasks newShadertoyWindow @ [TexResTask (Finite r)]\<rparr>
           else newShadertoyWindow)"
    by blast
  from r p have "r = max tenthf (min 1 (1 / 2))" by blast
  then have "r = 1 / 2" by (simp add: tenthf_def)
  with m have q: "onModifyTextureResolution newShadertoyWindow (Finite (1 / 2)) =
     newShadertoyWindow\<lparr>renderThreadTasks := [TexResTask (Finite (1 / 2))]\<rparr>"
    by (simp add: new_texRes)
  from t h have "1 / 10 \<le> texRes (foldl resStep newShadertoyWindow
      [ModifyTextureResolution (Finite (1 / 2)), RunTasks,
       ModifyTextureResolution (Finite (1 / 2)), RunTasks])"
    by blast
  then have k: "1 / 10 \<le> (1 / 4 :: real)" by (simp only: halve_twice)
  from h p q k halve_twice floor_clamp show ?thesis by (intro conjI) simp_all
qed


end
